theory Spec2Isabelle
  imports Main "HOL-Library.Sublist"
begin

section \<open>Python values shared by the modules\<close>

text \<open>
  Exceptions are values. Every constructor stands for a class deriving from Python's
  \<open>Exception\<close>, which is what the handlers of the sources name; each carries the text
  that \<open>str(e)\<close> gives. \<open>CalledProcessError\<close> also carries the captured \<open>stderr\<close>.
\<close>

datatype py_exc =
    FileNotFoundError string
  | FileExistsError string
  | NotADirectoryError string
  | IsADirectoryError string
  | OSError string
  | TypeError string
  | AttributeError string
  | KeyError string
  | CalledProcessError string string
  | OtherException string

fun str_exc :: "py_exc \<Rightarrow> string" where
  "str_exc (FileNotFoundError m) = m"
| "str_exc (FileExistsError m) = m"
| "str_exc (NotADirectoryError m) = m"
| "str_exc (IsADirectoryError m) = m"
| "str_exc (OSError m) = m"
| "str_exc (TypeError m) = m"
| "str_exc (AttributeError m) = m"
| "str_exc (KeyError m) = m"
| "str_exc (CalledProcessError m err) = m"
| "str_exc (OtherException m) = m"

text \<open>The values a JSON configuration file holds (non-integer numbers are left out).\<close>

datatype json =
    JNull
  | JBool bool
  | JInt int
  | JStr string
  | JList "json list"
  | JObj "(string \<times> json) list"

type_synonym config = "string \<Rightarrow> json option"

fun py_type_name :: "json \<Rightarrow> string" where
  "py_type_name JNull = ''NoneType''"
| "py_type_name (JBool b) = ''bool''"
| "py_type_name (JInt n) = ''int''"
| "py_type_name (JStr s) = ''str''"
| "py_type_name (JList xs) = ''list''"
| "py_type_name (JObj kvs) = ''dict''"

definition quoted :: "string \<Rightarrow> string" where
  "quoted s = [CHR 0x27] @ s @ [CHR 0x27]"

text \<open>\<open>sep.join(xs)\<close>\<close>

fun join_str :: "string \<Rightarrow> string list \<Rightarrow> string" where
  "join_str sep [] = []"
| "join_str sep [x] = x"
| "join_str sep (x # y # ys) = x @ sep @ join_str sep (y # ys)"

text \<open>\<open>str(n)\<close> for an integer: decimal digits, a minus sign for negative numbers.\<close>

definition digit_char :: "nat \<Rightarrow> char" where
  "digit_char d = ''0123456789'' ! d"

fun str_nat :: "nat \<Rightarrow> string" where
  "str_nat n = (if n < 10 then [digit_char n] else str_nat (n div 10) @ [digit_char (n mod 10)])"

definition str_int :: "int \<Rightarrow> string" where
  "str_int i = (if i < 0 then CHR ''-'' # str_nat (nat (- i)) else str_nat (nat i))"


section \<open>main.py: \<open>validate_config\<close>\<close>

definition required_fields :: "string list" where
  "required_fields =
     [''cluster_name'', ''aws_region'', ''availability_zones'', ''vpc_cidr'',
      ''master_count'', ''worker_count'', ''ssh_public_key_path'', ''ssh_private_key_path'']"

text \<open>\<open>config[key]\<close>: a missing key raises \<open>KeyError\<close>.\<close>

definition getitem :: "config \<Rightarrow> string \<Rightarrow> py_exc + json" where
  "getitem c k = (case c k of None \<Rightarrow> Inl (KeyError k) | Some v \<Rightarrow> Inr v)"

text \<open>
  \<open>value < 1\<close>: integers compare as numbers, \<open>bool\<close> is a subclass of \<open>int\<close>
  (\<open>False\<close> is 0, \<open>True\<close> is 1), every other type raises \<open>TypeError\<close>.
\<close>

fun lt_one :: "json \<Rightarrow> py_exc + bool" where
  "lt_one (JInt n) = Inr (n < 1)"
| "lt_one (JBool b) = Inr (\<not> b)"
| "lt_one v = Inl (TypeError
     (quoted ''<'' @ '' not supported between instances of '' @ quoted (py_type_name v)
        @ '' and '' @ quoted ''int''))"

text \<open>\<open>os.path.expanduser(value)\<close> accepts a string and raises \<open>TypeError\<close> otherwise.\<close>

fun expanduser_json :: "(string \<Rightarrow> string) \<Rightarrow> json \<Rightarrow> py_exc + string" where
  "expanduser_json expanduser (JStr s) = Inr (expanduser s)"
| "expanduser_json expanduser v = Inl (TypeError
     (''expected str, bytes or os.PathLike object, not '' @ py_type_name v))"

text \<open>
  \<open>repr(value)\<close> and \<open>str(value)\<close>, which \<open>f"{value}"\<close> inserts (the escapes in the
  \<open>repr\<close> of a string are not modelled).
\<close>

fun py_repr :: "json \<Rightarrow> string"
and py_repr_list :: "json list \<Rightarrow> string list"
and py_repr_items :: "(string \<times> json) list \<Rightarrow> string list" where
  "py_repr JNull = ''None''"
| "py_repr (JBool b) = (if b then ''True'' else ''False'')"
| "py_repr (JInt n) = str_int n"
| "py_repr (JStr s) = quoted s"
| "py_repr (JList xs) = ''['' @ join_str '', '' (py_repr_list xs) @ '']''"
| "py_repr (JObj kvs) = ''{'' @ join_str '', '' (py_repr_items kvs) @ ''}''"
| "py_repr_list [] = []"
| "py_repr_list (x # xs) = py_repr x # py_repr_list xs"
| "py_repr_items [] = []"
| "py_repr_items ((k, v) # kvs) = (quoted k @ '': '' @ py_repr v) # py_repr_items kvs"

fun py_str :: "json \<Rightarrow> string" where
  "py_str (JStr s) = s"
| "py_str v = py_repr v"

text \<open>
  The check of one key file: \<open>if not os.path.exists(os.path.expanduser(config[key]))\<close>.
  The result is the failure message to print, if the file is missing.
\<close>

definition key_missing ::
  "(string \<Rightarrow> bool) \<Rightarrow> (string \<Rightarrow> string) \<Rightarrow> config \<Rightarrow> string \<Rightarrow> string \<Rightarrow> py_exc + string option" where
  "key_missing path_exists expanduser c k label =
     (case getitem c k of
        Inl e \<Rightarrow> Inl e
      | Inr v \<Rightarrow>
          (case expanduser_json expanduser v of
             Inl e \<Rightarrow> Inl e
           | Inr p \<Rightarrow>
               if \<not> path_exists p
               then Inr (Some (label @ '' not found at '' @ py_str v))
               else Inr None))"

text \<open>
  \<open>validate_config(config)\<close>. The file system and the home directory are parameters
  (\<open>path_exists\<close>, \<open>expanduser\<close>). The result is the lines printed and the value returned,
  or the exception raised.
\<close>

definition validate_config ::
  "(string \<Rightarrow> bool) \<Rightarrow> (string \<Rightarrow> string) \<Rightarrow> config \<Rightarrow> string list \<times> (py_exc + bool)" where
  "validate_config path_exists expanduser c =
     (let missing_fields = filter (\<lambda>field. c field = None) required_fields in
      if missing_fields \<noteq> []
      then ([''Missing required configuration fields: '' @ join_str '', '' missing_fields],
            Inr False)
      else
        (case getitem c ''master_count'' of
           Inl e \<Rightarrow> ([], Inl e)
         | Inr mc \<Rightarrow>
             (case lt_one mc of
                Inl e \<Rightarrow> ([], Inl e)
              | Inr True \<Rightarrow> ([''At least one master node is required''], Inr False)
              | Inr False \<Rightarrow>
                  (case key_missing path_exists expanduser c
                          ''ssh_public_key_path'' ''SSH public key'' of
                     Inl e \<Rightarrow> ([], Inl e)
                   | Inr (Some msg) \<Rightarrow> ([msg], Inr False)
                   | Inr None \<Rightarrow>
                       (case key_missing path_exists expanduser c
                               ''ssh_private_key_path'' ''SSH private key'' of
                          Inl e \<Rightarrow> ([], Inl e)
                        | Inr (Some msg) \<Rightarrow> ([msg], Inr False)
                        | Inr None \<Rightarrow> ([], Inr True))))))"

text \<open>The default configuration of \<open>create_default_config\<close>, with a given worker count.\<close>

definition default_config :: "int \<Rightarrow> config" where
  "default_config workers =
     map_of
       [(''cluster_name'', JStr ''k8s-cluster''),
        (''aws_region'', JStr ''us-east-1''),
        (''availability_zones'', JList [JStr ''us-east-1a'', JStr ''us-east-1b'']),
        (''vpc_cidr'', JStr ''10.0.0.0/16''),
        (''subnet_count'', JInt 2),
        (''master_count'', JInt 1),
        (''worker_count'', JInt workers),
        (''master_instance_type'', JStr ''t3.medium''),
        (''worker_instance_type'', JStr ''t3.large''),
        (''master_volume_size'', JInt 50),
        (''worker_volume_size'', JInt 100),
        (''ssh_public_key_path'', JStr ''./.ssh/id_rsa.pub''),
        (''ssh_private_key_path'', JStr ''./.ssh/id_rsa''),
        (''kubernetes_version'', JStr ''1.28.2''),
        (''pod_network_cidr'', JStr ''10.244.0.0/16''),
        (''service_cidr'', JStr ''10.96.0.0/12'')]"

text \<open>A file system on which every path exists.\<close>

definition keys_present :: "string \<Rightarrow> bool" where
  "keys_present p = True"


section \<open>ssh_tools.py: \<open>SSHConnectionTool\<close>\<close>

text \<open>The arguments of \<open>client.connect\<close>.\<close>

record ssh_conn =
  hostname :: string
  username :: string
  key_filename :: string
  port :: int
  timeout :: int

text \<open>
  What one connection brings: an exception raised by \<open>connect\<close>, \<open>exec_command\<close>,
  \<open>recv_exit_status\<close>, \<open>read\<close> or \<open>decode\<close>, or the exit status with the decoded
  standard output and standard error of the command.
\<close>

datatype ssh_outcome =
    Raises py_exc
  | Completed int string string

text \<open>
  The network is a parameter: \<open>net k conn command\<close> is what the \<open>k\<close>-th connection made
  by the process brings. The state threaded through \<open>_run\<close> is the number of connections
  made so far.
\<close>

type_synonym ssh_net = "nat \<Rightarrow> ssh_conn \<Rightarrow> string \<Rightarrow> ssh_outcome"

definition SSHConnectionTool_run ::
  "(string \<Rightarrow> string) \<Rightarrow> ssh_net \<Rightarrow> string \<Rightarrow> string \<Rightarrow> string \<Rightarrow> int \<Rightarrow> string \<Rightarrow> int
     \<Rightarrow> nat \<Rightarrow> string \<times> nat" where
  "SSHConnectionTool_run expanduser net host user key_path prt cmd tmo connections =
     (let key_path' = expanduser key_path;
          conn = \<lparr>hostname = host, username = user, key_filename = key_path',
                  port = prt, timeout = tmo\<rparr>
      in case net connections conn cmd of
           Raises e \<Rightarrow> (''SSH error: '' @ str_exc e, Suc connections)
         | Completed exit_status output error \<Rightarrow>
             (if exit_status = 0
              then ''Command executed successfully:\<newline>'' @ output
              else ''Command failed with exit status '' @ str_int exit_status
                     @ '':\<newline>'' @ error,
              Suc connections))"

text \<open>Networks for the examples: the given outcome at every connection.\<close>

definition always :: "ssh_outcome \<Rightarrow> ssh_net" where
  "always outcome k conn cmd = outcome"

text \<open>The first connection times out, every later one runs the command with status 0.\<close>

definition flaky_net :: ssh_net where
  "flaky_net k conn cmd =
     (if k = 0 then Raises (OtherException ''timed out'') else Completed 0 ''done'' [])"


section \<open>ssh_tools.py: \<open>ScriptGeneratorTool\<close>\<close>

definition unlines :: "string list \<Rightarrow> string" where
  "unlines ls = concat (map (\<lambda>l. l @ ''\<newline>'') ls)"

text \<open>
  \<open>parameters.get(key, default)\<close> on \<open>Optional[Dict]\<close>: \<open>None\<close> has no attribute
  \<open>get\<close>. The values are the strings the callers pass.
\<close>

type_synonym params = "(string \<Rightarrow> string option) option"

definition params_get :: "params \<Rightarrow> string \<Rightarrow> string \<Rightarrow> py_exc + string" where
  "params_get parameters k d =
     (case parameters of
        None \<Rightarrow> Inl (AttributeError
          (quoted ''NoneType'' @ '' object has no attribute '' @ quoted ''get''))
      | Some m \<Rightarrow> Inr (case m k of None \<Rightarrow> d | Some v \<Rightarrow> v))"

definition generate_common_script :: "params \<Rightarrow> py_exc + string" where
  \<open>generate_common_script parameters =
     (case params_get parameters ''kubernetes_version'' ''1.28.2'' of
        Inl e \<Rightarrow> Inl e
      | Inr kubernetes_version \<Rightarrow>
     (case params_get parameters ''containerd_version'' ''1.7.2'' of
        Inl e \<Rightarrow> Inl e
      | Inr containerd_version \<Rightarrow> Inr (
     unlines
       [''#!/bin/bash'',
        ''set -e'',
        [],
        ''# Common setup script for Kubernetes nodes'',
        [],
        ''# Update system and install dependencies'',
        ''apt-get update'',
        ''apt-get upgrade -y'',
        ''apt-get install -y apt-transport-https ca-certificates curl software-properties-common gnupg'',
        [],
        ''# Disable swap'',
        ''swapoff -a'',
        ''sed -i '/swap/d' /etc/fstab'',
        [],
        ''# Load kernel modules'',
        ''cat <<EOF | tee /etc/modules-load.d/k8s.conf'',
        ''overlay'',
        ''br_netfilter'',
        ''EOF'',
        [],
        ''modprobe overlay'',
        ''modprobe br_netfilter'',
        [],
        ''# Set up required sysctl params'',
        ''cat <<EOF | tee /etc/sysctl.d/k8s.conf'',
        ''net.bridge.bridge-nf-call-iptables  = 1'',
        ''net.bridge.bridge-nf-call-ip6tables = 1'',
        ''net.ipv4.ip_forward                 = 1'',
        ''EOF'',
        [],
        ''sysctl --system'',
        [],
        ''# Install containerd'',
        ''curl -fsSL https://download.docker.com/linux/ubuntu/gpg | gpg --dearmor -o /etc/apt/keyrings/docker.gpg'',
        ''echo "deb [arch=$(dpkg --print-architecture) signed-by=/etc/apt/keyrings/docker.gpg] https://download.docker.com/linux/ubuntu $(lsb_release -cs) stable" | tee /etc/apt/sources.list.d/docker.list'',
        ''apt-get update'',
        ''apt-get install -y containerd.io'',
        [],
        ''# Configure containerd to use systemd as cgroup driver'',
        ''mkdir -p /etc/containerd'',
        ''containerd config default | tee /etc/containerd/config.toml'',
        ''sed -i 's/SystemdCgroup = false/SystemdCgroup = true/g' /etc/containerd/config.toml'',
        ''systemctl restart containerd'',
        ''systemctl enable containerd'',
        [],
        ''# Install Kubernetes components'',
        ''curl -fsSL https://pkgs.k8s.io/core:/stable:/v'' @ kubernetes_version @ ''/deb/Release.key | gpg --dearmor -o /etc/apt/keyrings/kubernetes-apt-keyring.gpg'',
        ''echo "deb [signed-by=/etc/apt/keyrings/kubernetes-apt-keyring.gpg] https://pkgs.k8s.io/core:/stable:/v'' @ kubernetes_version @ ''/deb/ /" | tee /etc/apt/sources.list.d/kubernetes.list'',
        ''apt-get update'',
        ''apt-get install -y kubelet kubeadm kubectl'',
        ''apt-mark hold kubelet kubeadm kubectl'',
        [],
        ''echo "Common node setup completed!"''])))\<close>

definition generate_k8s_master_script :: "params \<Rightarrow> py_exc + string" where
  \<open>generate_k8s_master_script parameters =
     (case params_get parameters ''pod_network_cidr'' ''10.244.0.0/16'' of
        Inl e \<Rightarrow> Inl e
      | Inr pod_network_cidr \<Rightarrow>
     (case params_get parameters ''service_cidr'' ''10.96.0.0/12'' of
        Inl e \<Rightarrow> Inl e
      | Inr service_cidr \<Rightarrow> Inr (
     unlines
       [''#!/bin/bash'',
        ''set -e'',
        [],
        ''# Master node setup script'',
        [],
        ''# Initialize Kubernetes cluster'',
        ''kubeadm init --pod-network-cidr='' @ pod_network_cidr @ '' --service-cidr='' @ service_cidr,
        [],
        ''# Set up kubeconfig for the user'',
        ''mkdir -p $HOME/.kube'',
        ''cp -i /etc/kubernetes/admin.conf $HOME/.kube/config'',
        ''chown $(id -u):$(id -g) $HOME/.kube/config'',
        [],
        ''# Install Calico network plugin'',
        ''kubectl create -f https://raw.githubusercontent.com/projectcalico/calico/master/manifests/tigera-operator.yaml'',
        ''kubectl create -f https://raw.githubusercontent.com/projectcalico/calico/master/manifests/custom-resources.yaml'',
        [],
        ''# Generate join command for worker nodes'',
        ''JOIN_COMMAND=$(kubeadm token create --print-join-command)'',
        ''echo "$JOIN_COMMAND" > /root/k8s_join_command.sh'',
        [],
        ''# Output cluster info'',
        ''kubectl cluster-info'',
        ''kubectl get nodes'',
        [],
        ''echo "Master node setup completed!"''])))\<close>

definition generate_k8s_worker_script :: "params \<Rightarrow> py_exc + string" where
  \<open>generate_k8s_worker_script parameters =
     (case params_get parameters ''join_command'' [] of
        Inl e \<Rightarrow> Inl e
      | Inr join_command \<Rightarrow> Inr (
     unlines
       [''#!/bin/bash'',
        ''set -e'',
        [],
        ''# Worker node setup script'',
        [],
        ''# Join the cluster'',
        join_command,
        [],
        ''echo "Worker node joined the cluster!"'']))\<close>

text \<open>
  The dispatch of \<open>_run\<close> on \<open>script_type\<close>: the script text, the exception raised while
  building it, or \<open>None\<close> for an unknown type.
\<close>

definition generate_script :: "string \<Rightarrow> params \<Rightarrow> (py_exc + string) option" where
  "generate_script script_type parameters =
     (if script_type = ''k8s_master'' then Some (generate_k8s_master_script parameters)
      else if script_type = ''k8s_worker'' then Some (generate_k8s_worker_script parameters)
      else if script_type = ''common'' then Some (generate_common_script parameters)
      else None)"


section \<open>File systems\<close>

text \<open>
  A path is the list of its components, a file system a partial map from paths to nodes.
  The empty path is the directory the path starts from; it always exists. Names are
  atomic: \<open>..\<close> and symbolic links are not interpreted here.
\<close>

type_synonym path = "string list"

datatype node = NDir | NFile string

type_synonym fs = "path \<Rightarrow> node option"

definition node_at :: "fs \<Rightarrow> path \<Rightarrow> node option" where
  "node_at f p = (if p = [] then Some NDir else f p)"

fun split_on :: "char \<Rightarrow> string \<Rightarrow> string list" where
  "split_on d [] = [[]]"
| "split_on d (c # cs) =
     (if c = d then [] # split_on d cs
      else (case split_on d cs of [] \<Rightarrow> [[c]] | w # ws \<Rightarrow> (c # w) # ws))"

definition components :: "string \<Rightarrow> path" where
  "components s = filter (\<lambda>w. w \<noteq> [] \<and> w \<noteq> ''.'') (split_on CHR ''/'' s)"

text \<open>
  \<open>os.path.dirname(p)\<close>: everything up to the last slash, without trailing slashes unless
  it consists of slashes only.
\<close>

definition dirname :: "string \<Rightarrow> string" where
  "dirname p =
     (let head = rev (dropWhile (\<lambda>c. c \<noteq> CHR ''/'') (rev p)) in
      if head \<noteq> [] \<and> filter (\<lambda>c. c \<noteq> CHR ''/'') head \<noteq> []
      then rev (dropWhile (\<lambda>c. c = CHR ''/'') (rev head))
      else head)"

text \<open>
  \<open>os.makedirs\<close> below an existing directory \<open>base\<close>: every missing component is
  created; a regular file in the way raises; an existing target raises unless
  \<open>exist_ok\<close>.
\<close>

fun makedirs_from :: "fs \<Rightarrow> path \<Rightarrow> string list \<Rightarrow> bool \<Rightarrow> py_exc + fs" where
  "makedirs_from f base [] exist_ok = Inr f"
| "makedirs_from f base (n # ns) exist_ok =
     (case node_at f (base @ [n]) of
        None \<Rightarrow> makedirs_from (f(base @ [n] \<mapsto> NDir)) (base @ [n]) ns exist_ok
      | Some NDir \<Rightarrow>
          if ns = [] \<and> \<not> exist_ok then Inl (FileExistsError ''File exists'')
          else makedirs_from f (base @ [n]) ns exist_ok
      | Some (NFile c) \<Rightarrow>
          if ns = [] then Inl (FileExistsError ''File exists'')
          else Inl (NotADirectoryError ''Not a directory''))"

definition makedirs :: "fs \<Rightarrow> path \<Rightarrow> bool \<Rightarrow> py_exc + fs" where
  "makedirs f p exist_ok =
     (if p = [] then (if exist_ok then Inr f else Inl (FileExistsError ''File exists''))
      else makedirs_from f [] p exist_ok)"

text \<open>\<open>os.makedirs(name, exist_ok=...)\<close> on a path string: the empty string names nothing.\<close>

definition makedirs_str :: "fs \<Rightarrow> string \<Rightarrow> bool \<Rightarrow> py_exc + fs" where
  "makedirs_str f name exist_ok =
     (if name = [] then Inl (FileNotFoundError ''No such file or directory'')
      else makedirs f (components name) exist_ok)"

text \<open>
  Writing a whole file (\<open>open(path, 'w')\<close> and \<open>write\<close>, or the local end of
  \<open>sftp.get\<close>): the target must not be a directory and its parent must be one.
\<close>

definition write_file :: "fs \<Rightarrow> path \<Rightarrow> string \<Rightarrow> py_exc + fs" where
  "write_file f p content =
     (if node_at f p = Some NDir then Inl (IsADirectoryError ''Is a directory'')
      else if node_at f (butlast p) \<noteq> Some NDir
      then Inl (FileNotFoundError ''No such file or directory'')
      else Inr (f(p \<mapsto> NFile content)))"

definition empty_fs :: fs where
  "empty_fs p = None"


section \<open>ssh_tools.py: \<open>ScriptGeneratorTool._run\<close>\<close>

text \<open>The local disk: the nodes and the permission bits set by \<open>os.chmod\<close>.\<close>

record disk =
  nodes :: fs
  modes :: "path \<Rightarrow> nat option"

definition ScriptGeneratorTool_run :: "string \<Rightarrow> string \<Rightarrow> params \<Rightarrow> disk \<Rightarrow> string \<times> disk" where
  "ScriptGeneratorTool_run script_type output_path parameters d =
     (case makedirs_str (nodes d) (dirname output_path) True of
        Inl e \<Rightarrow> (''Script generation error: '' @ str_exc e, d)
      | Inr f1 \<Rightarrow>
          (case generate_script script_type parameters of
             None \<Rightarrow> (''Unknown script type: '' @ script_type, d\<lparr>nodes := f1\<rparr>)
           | Some (Inl e) \<Rightarrow> (''Script generation error: '' @ str_exc e, d\<lparr>nodes := f1\<rparr>)
           | Some (Inr script_content) \<Rightarrow>
               (case write_file f1 (components output_path) script_content of
                  Inl e \<Rightarrow> (''Script generation error: '' @ str_exc e, d\<lparr>nodes := f1\<rparr>)
                | Inr f2 \<Rightarrow>
                    (''Script generated at '' @ output_path,
                     \<lparr>nodes = f2, modes = (modes d)(components output_path \<mapsto> 493)\<rparr>))))"

definition empty_disk :: disk where
  "empty_disk = \<lparr>nodes = empty_fs, modes = (\<lambda>p. None)\<rparr>"

text \<open>A join command as \<open>kubeadm token create --print-join-command\<close> prints it.\<close>

definition sample_join_command :: string where
  "sample_join_command =
     ''kubeadm join 10.0.1.10:6443 --token abcdef.0123456789abcdef --discovery-token-ca-cert-hash sha256:1234''"

definition worker_params :: "string \<Rightarrow> params" where
  "worker_params j = Some (map_of [(''join_command'', j)])"


section \<open>ssh_tools.py: \<open>SCPTransferTool\<close>\<close>

text \<open>
  The side a transfer reads is a tree: a regular file with its content, or a directory
  with its entries in the order in which the operating system lists them. For an upload
  it is the tree as \<open>os.walk\<close> gives it, which lists a symbolic link to a directory and
  does not enter it: such a link is a directory without entries here. The side a transfer
  writes is a file system as above, with the log of the operations issued on it; an
  existence check (\<open>sftp.stat\<close>, \<open>os.path.exists\<close>) is logged with what it found.
\<close>

datatype fstree = File string | Dir "(string \<times> fstree) list"

datatype fs_op =
    Stat path bool
  | Mkdir path
  | Put path
  | Exists path bool
  | Makedirs path
  | Get path

record xfer =
  dest :: fs
  oplog :: "fs_op list"

definition logged :: "xfer \<Rightarrow> fs_op list \<Rightarrow> xfer" where
  "logged x ops = x\<lparr>oplog := oplog x @ ops\<rparr>"

fun children :: "fstree \<Rightarrow> (string \<times> fstree) list" where
  "children (File c) = []"
| "children (Dir entries) = entries"

fun tree_at :: "fstree \<Rightarrow> path \<Rightarrow> fstree option" where
  "tree_at t [] = Some t"
| "tree_at t (n # ns) =
     (case map_of (children t) n of None \<Rightarrow> None | Some t' \<Rightarrow> tree_at t' ns)"

text \<open>The SFTP requests on the remote file system.\<close>

definition sftp_stat :: "fs \<Rightarrow> path \<Rightarrow> py_exc + node" where
  "sftp_stat f p =
     (case node_at f p of
        None \<Rightarrow> Inl (FileNotFoundError ''No such file'')
      | Some n \<Rightarrow> Inr n)"

definition sftp_mkdir :: "fs \<Rightarrow> path \<Rightarrow> py_exc + fs" where
  "sftp_mkdir f p =
     (if node_at f p \<noteq> None then Inl (OSError ''Failure'')
      else if node_at f (butlast p) \<noteq> Some NDir then Inl (FileNotFoundError ''No such file'')
      else Inr (f(p \<mapsto> NDir)))"

definition sftp_put :: "fs \<Rightarrow> path \<Rightarrow> string \<Rightarrow> py_exc + fs" where
  "sftp_put f p content =
     (if node_at f p = Some NDir then Inl (OSError ''Failure'')
      else if node_at f (butlast p) \<noteq> Some NDir then Inl (FileNotFoundError ''No such file'')
      else Inr (f(p \<mapsto> NFile content)))"

text \<open>
  \<open>try: sftp.stat(dir) except FileNotFoundError: sftp.mkdir(dir)\<close>. The first component
  of the result is the exception that leaves the block, if any.
\<close>

definition ensure_remote_dir :: "xfer \<Rightarrow> path \<Rightarrow> py_exc option \<times> xfer" where
  "ensure_remote_dir x p =
     (case sftp_stat (dest x) p of
        Inr n \<Rightarrow> (None, logged x [Stat p True])
      | Inl (FileNotFoundError m) \<Rightarrow>
          (case sftp_mkdir (dest x) p of
             Inl e \<Rightarrow> (Some e, logged x [Stat p False, Mkdir p])
           | Inr f' \<Rightarrow> (None, logged (x\<lparr>dest := f'\<rparr>) [Stat p False, Mkdir p]))
      | Inl e \<Rightarrow> (Some e, logged x [Stat p False]))"

definition put_file :: "xfer \<Rightarrow> path \<Rightarrow> string \<Rightarrow> py_exc option \<times> xfer" where
  "put_file x p content =
     (case sftp_put (dest x) p content of
        Inl e \<Rightarrow> (Some e, logged x [Put p])
      | Inr f' \<Rightarrow> (None, logged (x\<lparr>dest := f'\<rparr>) [Put p]))"

text \<open>
  \<open>os.walk(top)\<close>, top-down: one triple per directory, the directory first and then the
  walks of its subdirectories in order. The files carry the content that \<open>put\<close> will
  read.
\<close>

fun dir_names :: "(string \<times> fstree) list \<Rightarrow> string list" where
  "dir_names [] = []"
| "dir_names ((n, Dir es) # rest) = n # dir_names rest"
| "dir_names ((n, File c) # rest) = dir_names rest"

fun file_entries :: "(string \<times> fstree) list \<Rightarrow> (string \<times> string) list" where
  "file_entries [] = []"
| "file_entries ((n, Dir es) # rest) = file_entries rest"
| "file_entries ((n, File c) # rest) = (n, c) # file_entries rest"

fun walk :: "path \<Rightarrow> fstree \<Rightarrow> (path \<times> string list \<times> (string \<times> string) list) list"
and walk_subdirs ::
  "path \<Rightarrow> (string \<times> fstree) list \<Rightarrow> (path \<times> string list \<times> (string \<times> string) list) list" where
  "walk top_dir (File c) = []"
| "walk top_dir (Dir entries) =
     (top_dir, dir_names entries, file_entries entries) # walk_subdirs top_dir entries"
| "walk_subdirs top_dir [] = []"
| "walk_subdirs top_dir ((n, t) # rest) = walk (top_dir @ [n]) t @ walk_subdirs top_dir rest"

text \<open>\<open>os.path.relpath(p, start)\<close> for a path \<open>p\<close> below \<open>start\<close>.\<close>

definition relpath :: "path \<Rightarrow> path \<Rightarrow> path" where
  "relpath p start = drop (length start) p"

fun upload_dirs :: "xfer \<Rightarrow> path \<Rightarrow> path \<Rightarrow> path \<Rightarrow> string list \<Rightarrow> py_exc option \<times> xfer" where
  "upload_dirs x local_path remote_path root [] = (None, x)"
| "upload_dirs x local_path remote_path root (dir_name # rest) =
     (let local_dir = root @ [dir_name];
          rel_path = relpath local_dir local_path;
          remote_dir = remote_path @ rel_path
      in case ensure_remote_dir x remote_dir of
           (Some e, x') \<Rightarrow> (Some e, x')
         | (None, x') \<Rightarrow> upload_dirs x' local_path remote_path root rest)"

fun upload_files ::
  "xfer \<Rightarrow> path \<Rightarrow> path \<Rightarrow> path \<Rightarrow> (string \<times> string) list \<Rightarrow> py_exc option \<times> xfer" where
  "upload_files x local_path remote_path root [] = (None, x)"
| "upload_files x local_path remote_path root ((file_name, content) # rest) =
     (let local_file = root @ [file_name];
          rel_path = relpath local_file local_path;
          remote_file = remote_path @ rel_path
      in case put_file x remote_file content of
           (Some e, x') \<Rightarrow> (Some e, x')
         | (None, x') \<Rightarrow> upload_files x' local_path remote_path root rest)"

fun upload_walk ::
  "xfer \<Rightarrow> path \<Rightarrow> path \<Rightarrow> (path \<times> string list \<times> (string \<times> string) list) list
     \<Rightarrow> py_exc option \<times> xfer" where
  "upload_walk x local_path remote_path [] = (None, x)"
| "upload_walk x local_path remote_path ((root, dirs, files) # rest) =
     (case upload_dirs x local_path remote_path root dirs of
        (Some e, x1) \<Rightarrow> (Some e, x1)
      | (None, x1) \<Rightarrow>
          (case upload_files x1 local_path remote_path root files of
             (Some e, x2) \<Rightarrow> (Some e, x2)
           | (None, x2) \<Rightarrow> upload_walk x2 local_path remote_path rest))"

text \<open>The branch \<open>if recursive and os.path.isdir(local_path)\<close> of an upload.\<close>

definition upload_dir :: "xfer \<Rightarrow> path \<Rightarrow> path \<Rightarrow> fstree \<Rightarrow> py_exc option \<times> xfer" where
  "upload_dir x local_path remote_path t =
     (case ensure_remote_dir x remote_path of
        (Some e, x') \<Rightarrow> (Some e, x')
      | (None, x') \<Rightarrow> upload_walk x' local_path remote_path (walk local_path t))"

text \<open>
  The local side of a download: \<open>if not os.path.exists(p): os.makedirs(p)\<close>, and
  \<open>sftp.get\<close> writing the content of a remote file.
\<close>

definition ensure_local_dir :: "xfer \<Rightarrow> path \<Rightarrow> py_exc option \<times> xfer" where
  "ensure_local_dir x p =
     (if node_at (dest x) p = None
      then (case makedirs (dest x) p False of
              Inl e \<Rightarrow> (Some e, logged x [Exists p False, Makedirs p])
            | Inr f' \<Rightarrow> (None, logged (x\<lparr>dest := f'\<rparr>) [Exists p False, Makedirs p]))
      else (None, logged x [Exists p True]))"

definition get_file :: "xfer \<Rightarrow> path \<Rightarrow> string \<Rightarrow> py_exc option \<times> xfer" where
  "get_file x p content =
     (case write_file (dest x) p content of
        Inl e \<Rightarrow> (Some e, logged x [Get p])
      | Inr f' \<Rightarrow> (None, logged (x\<lparr>dest := f'\<rparr>) [Get p]))"

text \<open>
  \<open>download_dir_recursive(sftp, remote_dir, local_dir)\<close>; the first argument is the
  remote tree at \<open>remote_dir\<close>, whose entries \<open>sftp.listdir\<close> lists and \<open>sftp_is_dir\<close>
  tells apart.
\<close>

function (sequential) download_dir_recursive ::
  "fstree \<Rightarrow> path \<Rightarrow> path \<Rightarrow> xfer \<Rightarrow> py_exc option \<times> xfer"
and download_items ::
  "(string \<times> fstree) list \<Rightarrow> path \<Rightarrow> path \<Rightarrow> xfer \<Rightarrow> py_exc option \<times> xfer" where
  "download_dir_recursive (File c) remote_dir local_dir x = (Some (OSError ''Failure''), x)"
| "download_dir_recursive (Dir items) remote_dir local_dir x =
     download_items items remote_dir local_dir x"
| "download_items [] remote_dir local_dir x = (None, x)"
| "download_items ((item, File c) # rest) remote_dir local_dir x =
     (case get_file x (local_dir @ [item]) c of
        (Some e, x1) \<Rightarrow> (Some e, x1)
      | (None, x1) \<Rightarrow> download_items rest remote_dir local_dir x1)"
| "download_items ((item, Dir sub) # rest) remote_dir local_dir x =
     (case ensure_local_dir x (local_dir @ [item]) of
        (Some e, x1) \<Rightarrow> (Some e, x1)
      | (None, x1) \<Rightarrow>
          (case download_dir_recursive (Dir sub) (remote_dir @ [item]) (local_dir @ [item]) x1 of
             (Some e, x2) \<Rightarrow> (Some e, x2)
           | (None, x2) \<Rightarrow> download_items rest remote_dir local_dir x2))"
  by pat_completeness auto
termination
  by (relation "measure (\<lambda>a. case a of
                    Inl (t, rd, ld, x) \<Rightarrow> size t
                  | Inr (items, rd, ld, x) \<Rightarrow> size_list (size_prod (\<lambda>n. 0) size) items)")
     auto

text \<open>The branch \<open>if recursive and sftp_is_dir(sftp, remote_path)\<close> of a download.\<close>

definition download_dir :: "xfer \<Rightarrow> path \<Rightarrow> path \<Rightarrow> fstree \<Rightarrow> py_exc option \<times> xfer" where
  "download_dir x remote_path local_path t =
     (case ensure_local_dir x local_path of
        (Some e, x') \<Rightarrow> (Some e, x')
      | (None, x') \<Rightarrow> download_dir_recursive t remote_path local_path x')"

text \<open>
  A path string names the tree found by its components; the empty string names nothing
  (\<open>os.path.isdir\<close>, \<open>os.path.exists\<close> and the SFTP server find nothing under it, and
  nothing can be opened or created under it).
\<close>

definition lookup :: "fstree \<Rightarrow> string \<Rightarrow> fstree option" where
  "lookup src s = (if s = [] then None else tree_at src (components s))"

text \<open>
  \<open>sftp.get(remote_path, local_path)\<close> when the remote side has no regular file to read:
  the local file is opened for writing first, which truncates or creates it, and then the
  request for the remote file raises \<open>e\<close>.
\<close>

definition get_nothing :: "xfer \<Rightarrow> string \<Rightarrow> py_exc \<Rightarrow> (py_exc + string) \<times> xfer" where
  "get_nothing x local_path e =
     (if local_path = [] then (Inl (FileNotFoundError ''No such file or directory''), x)
      else (case write_file (dest x) (components local_path) [] of
              Inl e' \<Rightarrow> (Inl e', logged x [Get (components local_path)])
            | Inr f' \<Rightarrow> (Inl e, logged (x\<lparr>dest := f'\<rparr>) [Get (components local_path)])))"

text \<open>
  \<open>SCPTransferTool._run\<close>. \<open>net k conn\<close> is the exception that the \<open>k\<close>-th connection of
  the process raises in \<open>connect\<close> or \<open>open_sftp\<close>, if any. \<open>src\<close> is the side read (the
  local file system for an upload, the remote one for a download), \<open>x\<close> the side written.
  The result is the returned string, the side written and the number of connections made.
  Requests that name the empty string fail and are not logged.
\<close>

type_synonym scp_net = "nat \<Rightarrow> ssh_conn \<Rightarrow> py_exc option"

definition scp_transfer ::
  "fstree \<Rightarrow> xfer \<Rightarrow> string \<Rightarrow> string \<Rightarrow> string \<Rightarrow> bool \<Rightarrow> bool \<Rightarrow> (py_exc + string) \<times> xfer" where
  "scp_transfer src x host local_path remote_path upload recursive =
     (if upload then
        (case lookup src local_path of
           Some (Dir entries) \<Rightarrow>
             if recursive then
               (if remote_path = [] then (Inl (FileNotFoundError ''No such file''), x)
                else
                  (case upload_dir x (components local_path) (components remote_path)
                          (Dir entries) of
                     (Some e, x') \<Rightarrow> (Inl e, x')
                   | (None, x') \<Rightarrow>
                       (Inr (''Directory '' @ local_path @ '' uploaded to '' @ remote_path
                               @ '' on '' @ host), x')))
             else (Inl (IsADirectoryError ''Is a directory''), x)
         | Some (File c) \<Rightarrow>
             if remote_path = [] then (Inl (FileNotFoundError ''No such file''), x)
             else
               (case put_file x (components remote_path) c of
                  (Some e, x') \<Rightarrow> (Inl e, x')
                | (None, x') \<Rightarrow>
                    (Inr (''File '' @ local_path @ '' uploaded to '' @ remote_path
                            @ '' on '' @ host), x'))
         | None \<Rightarrow> (Inl (FileNotFoundError ''No such file or directory''), x))
      else
        (case lookup src remote_path of
           Some (Dir entries) \<Rightarrow>
             if recursive then
               (if local_path = []
                then (Inl (FileNotFoundError ''No such file or directory''), x)
                else
                  (case download_dir x (components remote_path) (components local_path)
                          (Dir entries) of
                     (Some e, x') \<Rightarrow> (Inl e, x')
                   | (None, x') \<Rightarrow>
                       (Inr (''Directory '' @ remote_path @ '' downloaded to '' @ local_path
                               @ '' from '' @ host), x')))
             else get_nothing x local_path (OSError ''Failure'')
         | Some (File c) \<Rightarrow>
             if local_path = []
             then (Inl (FileNotFoundError ''No such file or directory''), x)
             else
               (case get_file x (components local_path) c of
                  (Some e, x') \<Rightarrow> (Inl e, x')
                | (None, x') \<Rightarrow>
                    (Inr (''File '' @ remote_path @ '' downloaded to '' @ local_path
                            @ '' from '' @ host), x'))
         | None \<Rightarrow> get_nothing x local_path (FileNotFoundError ''No such file'')))"

definition SCPTransferTool_run ::
  "(string \<Rightarrow> string) \<Rightarrow> scp_net \<Rightarrow> string \<Rightarrow> string \<Rightarrow> string \<Rightarrow> int \<Rightarrow> string \<Rightarrow> string
     \<Rightarrow> bool \<Rightarrow> bool \<Rightarrow> int \<Rightarrow> fstree \<Rightarrow> xfer \<Rightarrow> nat \<Rightarrow> string \<times> xfer \<times> nat" where
  "SCPTransferTool_run expanduser net host user key_path prt local_path remote_path
       upload recursive tmo src x connections =
     (let key_path' = expanduser key_path;
          conn = \<lparr>hostname = host, username = user, key_filename = key_path',
                  port = prt, timeout = tmo\<rparr>
      in case net connections conn of
           Some e \<Rightarrow> (''SCP error: '' @ str_exc e, x, Suc connections)
         | None \<Rightarrow>
             (case scp_transfer src x host local_path remote_path upload recursive of
                (Inl e, x') \<Rightarrow> (''SCP error: '' @ str_exc e, x', Suc connections)
              | (Inr result, x') \<Rightarrow> (result, x', Suc connections)))"

text \<open>The first connection is refused, every later one is accepted.\<close>

definition flaky_scp_net :: scp_net where
  "flaky_scp_net k conn = (if k = 0 then Some (OtherException ''Connection refused'') else None)"

definition fresh :: xfer where
  "fresh = \<lparr>dest = empty_fs, oplog = []\<rparr>"


section \<open>terraform_tools.py\<close>

text \<open>
  The working directory of the process is a physical path from the root, as the kernel
  keeps it; the file system maps physical paths to nodes, the empty path being the root.
  A symbolic link is an entry of \<open>links\<close>: the path of the link, and the physical path
  that it leads to, every further link on the way already followed. \<open>os.chdir\<close> walks the
  components of its argument from the working directory (from the root for an absolute
  argument): \<open>..\<close> goes to the parent of the directory reached so far, a name goes to that
  entry, or to where it leads when it is a symbolic link, and what is reached has to be a
  directory.
\<close>

type_synonym links = "path \<Rightarrow> path option"

fun resolve :: "fs \<Rightarrow> links \<Rightarrow> path \<Rightarrow> string list \<Rightarrow> py_exc + path" where
  "resolve f l cur [] = Inr cur"
| "resolve f l cur (n # ns) =
     (if n = ''..'' then resolve f l (butlast cur) ns
      else (let entry = (case l (cur @ [n]) of None \<Rightarrow> cur @ [n] | Some target \<Rightarrow> target)
            in case node_at f entry of
                 Some NDir \<Rightarrow> resolve f l entry ns
               | Some (NFile c) \<Rightarrow> Inl (NotADirectoryError ''Not a directory'')
               | None \<Rightarrow> Inl (FileNotFoundError ''No such file or directory'')))"

definition chdir :: "fs \<Rightarrow> links \<Rightarrow> path \<Rightarrow> string \<Rightarrow> py_exc + path" where
  "chdir f l cwd p =
     (if p = [] then Inl (FileNotFoundError ''No such file or directory'')
      else resolve f l (if hd p = CHR ''/'' then [] else cwd) (components p))"

text \<open>
  \<open>subprocess.run(cmd, capture_output=True, text=True)\<close> in a working directory: an
  exception (the program cannot be started), or the return code with the captured
  standard output and standard error.
\<close>

datatype proc_outcome =
    ProcRaises py_exc
  | ProcDone int string string

type_synonym subprocess = "string list \<Rightarrow> path \<Rightarrow> proc_outcome"

text \<open>
  The \<open>finally: os.chdir("..")\<close> of every tool: the result stands, and the process moves to
  the parent of the directory it is in.
\<close>

definition finally_chdir_up :: "'a \<Rightarrow> path \<Rightarrow> 'a \<times> path" where
  "finally_chdir_up result cwd = (result, butlast cwd)"

text \<open>
  \<open>TerraformInitTool._run\<close>: \<open>check=True\<close> turns a non-zero return code into
  \<open>CalledProcessError\<close>, the only exception the tool handles; any other one leaves the
  function after the \<open>finally\<close> block.
\<close>

definition TerraformInitTool_run ::
  "fs \<Rightarrow> links \<Rightarrow> subprocess \<Rightarrow> string \<Rightarrow> path \<Rightarrow> (py_exc + string) \<times> path" where
  "TerraformInitTool_run f l run workspace_dir cwd =
     (case chdir f l cwd workspace_dir of
        Inl e \<Rightarrow>
          finally_chdir_up
            (case e of
               CalledProcessError m err \<Rightarrow> Inr (''Error initializing Terraform: '' @ err)
             | _ \<Rightarrow> Inl e) cwd
      | Inr cwd1 \<Rightarrow>
          finally_chdir_up
            (case run [''terraform'', ''init''] cwd1 of
               ProcRaises e \<Rightarrow>
                 (case e of
                    CalledProcessError m err \<Rightarrow> Inr (''Error initializing Terraform: '' @ err)
                  | _ \<Rightarrow> Inl e)
             | ProcDone returncode out err \<Rightarrow>
                 if returncode \<noteq> 0 then Inr (''Error initializing Terraform: '' @ err)
                 else Inr (''Terraform initialization complete:\<newline>'' @ out)) cwd1)"

text \<open>
  \<open>variables\<close> is an optional dictionary, here the list of its items with the values
  already formatted; an empty dictionary is false.
\<close>

type_synonym variables = "(string \<times> string) list option"

fun var_args :: "(string \<times> string) list \<Rightarrow> string list" where
  "var_args [] = []"
| "var_args ((k, v) # rest) = [''-var'', k @ ''='' @ v] @ var_args rest"

definition truthy_vars :: "variables \<Rightarrow> bool" where
  "truthy_vars vs = (case vs of None \<Rightarrow> False | Some kvs \<Rightarrow> kvs \<noteq> [])"

definition vars_of :: "variables \<Rightarrow> (string \<times> string) list" where
  "vars_of vs = (case vs of None \<Rightarrow> [] | Some kvs \<Rightarrow> kvs)"

definition TerraformPlanTool_run ::
  "fs \<Rightarrow> links \<Rightarrow> subprocess \<Rightarrow> string \<Rightarrow> variables \<Rightarrow> path \<Rightarrow> (py_exc + string) \<times> path" where
  "TerraformPlanTool_run f l run workspace_dir vs cwd =
     (case chdir f l cwd workspace_dir of
        Inl e \<Rightarrow> finally_chdir_up (Inr (''Error executing Terraform plan: '' @ str_exc e)) cwd
      | Inr cwd1 \<Rightarrow>
          finally_chdir_up
            (let cmd = [''terraform'', ''plan'', ''-detailed-exitcode'', ''-out=tfplan''];
                 cmd = (if truthy_vars vs then cmd @ var_args (vars_of vs) else cmd)
             in case run cmd cwd1 of
                  ProcRaises e \<Rightarrow> Inr (''Error executing Terraform plan: '' @ str_exc e)
                | ProcDone returncode out err \<Rightarrow>
                    if returncode = 0 then Inr ''Terraform plan shows no changes needed''
                    else if returncode = 2
                    then Inr (''Terraform plan generated with changes:\<newline>'' @ out)
                    else Inr (''Error in Terraform plan: '' @ err)) cwd1)"

text \<open>
  \<open>json.dumps(json.loads(s), indent=2)\<close> is a parameter: \<open>None\<close> when \<open>json.loads\<close> raises
  \<open>JSONDecodeError\<close>.
\<close>

type_synonym json_pretty = "string \<Rightarrow> string option"

definition TerraformApplyTool_run ::
  "fs \<Rightarrow> links \<Rightarrow> subprocess \<Rightarrow> json_pretty \<Rightarrow> string \<Rightarrow> bool \<Rightarrow> string option \<Rightarrow> variables \<Rightarrow> path
     \<Rightarrow> (py_exc + string) \<times> path" where
  "TerraformApplyTool_run f l run pretty workspace_dir auto_approve plan_file vs cwd =
     (case chdir f l cwd workspace_dir of
        Inl e \<Rightarrow> finally_chdir_up (Inr (''Error executing Terraform apply: '' @ str_exc e)) cwd
      | Inr cwd1 \<Rightarrow>
          finally_chdir_up
            (let has_plan = (case plan_file of None \<Rightarrow> False | Some pf \<Rightarrow> pf \<noteq> []);
                 cmd = [''terraform'', ''apply''];
                 cmd = (if auto_approve then cmd @ [''-auto-approve''] else cmd);
                 cmd = (if has_plan then cmd @ [the plan_file] else cmd);
                 cmd = (if truthy_vars vs \<and> \<not> has_plan then cmd @ var_args (vars_of vs) else cmd)
             in case run cmd cwd1 of
                  ProcRaises e \<Rightarrow> Inr (''Error executing Terraform apply: '' @ str_exc e)
                | ProcDone returncode out err \<Rightarrow>
                    if returncode = 0 then
                      (case run [''terraform'', ''output'', ''-json''] cwd1 of
                         ProcRaises e \<Rightarrow> Inr (''Error executing Terraform apply: '' @ str_exc e)
                       | ProcDone returncode' out' err' \<Rightarrow>
                           if returncode' = 0 then
                             (case pretty out' of
                                Some formatted_outputs \<Rightarrow>
                                  Inr (''Terraform apply successful. Outputs:\<newline>''
                                         @ formatted_outputs)
                              | None \<Rightarrow>
                                  Inr ''Terraform apply successful. No outputs or error parsing outputs.'')
                           else Inr (''Terraform apply successful, but error fetching outputs: ''
                                       @ err'))
                    else Inr (''Error in Terraform apply: '' @ err)) cwd1)"

definition TerraformOutputTool_run ::
  "fs \<Rightarrow> links \<Rightarrow> subprocess \<Rightarrow> json_pretty \<Rightarrow> string \<Rightarrow> string option \<Rightarrow> path
     \<Rightarrow> (py_exc + string) \<times> path" where
  "TerraformOutputTool_run f l run pretty workspace_dir output_name cwd =
     (case chdir f l cwd workspace_dir of
        Inl e \<Rightarrow>
          finally_chdir_up
            (Inr (''Error executing Terraform output command: '' @ str_exc e)) cwd
      | Inr cwd1 \<Rightarrow>
          finally_chdir_up
            (let cmd = [''terraform'', ''output'', ''-json''];
                 cmd = (case output_name of
                          None \<Rightarrow> cmd
                        | Some n \<Rightarrow> if n \<noteq> [] then cmd @ [n] else cmd)
             in case run cmd cwd1 of
                  ProcRaises e \<Rightarrow>
                    Inr (''Error executing Terraform output command: '' @ str_exc e)
                | ProcDone returncode out err \<Rightarrow>
                    if returncode = 0 then
                      (case pretty out of
                         Some outputs \<Rightarrow> Inr outputs
                       | None \<Rightarrow> Inr (''Error parsing Terraform outputs: '' @ out))
                    else Inr (''Error getting Terraform outputs: '' @ err)) cwd1)"

definition TerraformDestroyTool_run ::
  "fs \<Rightarrow> links \<Rightarrow> subprocess \<Rightarrow> string \<Rightarrow> bool \<Rightarrow> variables \<Rightarrow> path \<Rightarrow> (py_exc + string) \<times> path" where
  "TerraformDestroyTool_run f l run workspace_dir auto_approve vs cwd =
     (case chdir f l cwd workspace_dir of
        Inl e \<Rightarrow> finally_chdir_up (Inr (''Error executing Terraform destroy: '' @ str_exc e)) cwd
      | Inr cwd1 \<Rightarrow>
          finally_chdir_up
            (let cmd = [''terraform'', ''destroy''];
                 cmd = (if auto_approve then cmd @ [''-auto-approve''] else cmd);
                 cmd = (if truthy_vars vs then cmd @ var_args (vars_of vs) else cmd)
             in case run cmd cwd1 of
                  ProcRaises e \<Rightarrow> Inr (''Error executing Terraform destroy: '' @ str_exc e)
                | ProcDone returncode out err \<Rightarrow>
                    if returncode = 0 then Inr ''Terraform destroy completed successfully''
                    else Inr (''Error in Terraform destroy: '' @ err)) cwd1)"

text \<open>A project directory with the working directory of the manager in it.\<close>

definition project_fs :: fs where
  "project_fs =
     map_of [([''home''], NDir), ([''home'', ''ops''], NDir),
             ([''home'', ''ops'', ''terraform''], NDir),
             ([''home'', ''ops'', ''k8s_setup''], NDir),
             ([''home'', ''ops'', ''k8s_setup'', ''terraform''], NDir)]"

definition no_links :: links where
  "no_links p = None"

text \<open>
  The same project with its Terraform workspace kept elsewhere: \<open>/home/ops/terraform\<close> is
  a symbolic link to the directory \<open>/srv/tf/prod\<close>.
\<close>

definition deployed_fs :: fs where
  "deployed_fs =
     map_of [([''home''], NDir), ([''home'', ''ops''], NDir),
             ([''srv''], NDir), ([''srv'', ''tf''], NDir),
             ([''srv'', ''tf'', ''prod''], NDir)]"

definition deployed_links :: links where
  "deployed_links = map_of [([''home'', ''ops'', ''terraform''], [''srv'', ''tf'', ''prod''])]"

definition terraform_fails :: subprocess where
  "terraform_fails cmd cwd = ProcDone 1 [] ''Error: No configuration files''"

definition terraform_missing :: subprocess where
  "terraform_missing cmd cwd = ProcRaises (FileNotFoundError ''No such file or directory: terraform'')"


section \<open>k8s_manager.py: \<open>setup_kubernetes_cluster\<close> and \<open>destroy_cluster\<close>\<close>

text \<open>
  What a call can raise. \<open>Exc e\<close> is an instance of \<open>Exception\<close> whose \<open>str\<close> is
  \<open>str_exc e\<close>; \<open>Unprintable r\<close> is an instance of a subclass of \<open>Exception\<close> whose
  \<open>__str__\<close> raises \<open>r\<close>; \<open>KeyboardInterrupt\<close> and \<open>SystemExit\<close> derive from
  \<open>BaseException\<close> and not from \<open>Exception\<close>.
\<close>

datatype raised =
    Exc py_exc
  | Unprintable raised
  | KeyboardInterrupt
  | SystemExit

fun is_Exception :: "raised \<Rightarrow> bool" where
  "is_Exception (Exc e) = True"
| "is_Exception (Unprintable r) = True"
| "is_Exception KeyboardInterrupt = False"
| "is_Exception SystemExit = False"

text \<open>\<open>str(e)\<close>: the text, or the exception that \<open>__str__\<close> raises.\<close>

fun str_raised :: "raised \<Rightarrow> raised + string" where
  "str_raised (Exc e) = Inr (str_exc e)"
| "str_raised (Unprintable r) = Inl r"
| "str_raised KeyboardInterrupt = Inr []"
| "str_raised SystemExit = Inr []"

text \<open>
  An action runs in a world and returns a value or raises, leaving a new world in both
  cases.
\<close>

type_synonym ('w, 'a) action = "'w \<Rightarrow> (raised + 'a) \<times> 'w"

definition return_value :: "'a \<Rightarrow> ('w, 'a) action" where
  "return_value v w = (Inr v, w)"

definition then_do :: "('w, 'a) action \<Rightarrow> ('a \<Rightarrow> ('w, 'b) action) \<Rightarrow> ('w, 'b) action" where
  "then_do first rest w =
     (case first w of
        (Inl e, w') \<Rightarrow> (Inl e, w')
      | (Inr v, w') \<Rightarrow> rest v w')"

text \<open>
  \<open>try: body except Exception as e: return handler(e)\<close>. Only an instance of \<open>Exception\<close>
  is caught, any other exception leaves the statement; the evaluation of the handler's
  expression may raise too, and what it raises leaves the statement.
\<close>

definition try_except ::
  "('w, 'a) action \<Rightarrow> (raised \<Rightarrow> raised + 'a) \<Rightarrow> ('w, 'a) action" where
  "try_except body handler w =
     (case body w of
        (Inl e, w') \<Rightarrow> if is_Exception e then (handler e, w') else (Inl e, w')
      | (Inr v, w') \<Rightarrow> (Inr v, w'))"

text \<open>
  The manager: its two collaborators and its working directory. \<open>create_terraform_files\<close>
  writes the Terraform files of a configuration; \<open>agent_invoke\<close> is \<open>self.agent.invoke\<close>,
  the language-model agent that chooses and runs the tools. Both may change the world and
  may raise.
\<close>

record 'w manager =
  create_terraform_files :: "config \<Rightarrow> ('w, unit) action"
  agent_invoke :: "string \<Rightarrow> ('w, json) action"
  working_dir :: string

definition config_get :: "config \<Rightarrow> string \<Rightarrow> json \<Rightarrow> json" where
  "config_get c k d = (case c k of None \<Rightarrow> d | Some v \<Rightarrow> v)"

definition setup_prompt :: "string \<Rightarrow> config \<Rightarrow> string" where
  \<open>setup_prompt wd config =
     (''\<newline>                I want to set up a Kubernetes cluster with ''
       @ py_str (config_get config ''master_count'' (JInt 1))
       @ '' master nodes \<newline>                and ''
       @ py_str (config_get config ''worker_count'' (JInt 2))
       @ '' worker nodes in AWS region ''
       @ py_str (config_get config ''aws_region'' (JStr ''us-east-1''))
       @ ''.\<newline>                \<newline>                I have already created the Terraform files in ''
       @ wd
       @ ''/terraform.\<newline>                \<newline>                Please perform the following steps:\<newline>                1. Initialize Terraform\<newline>                2. Create an execution plan\<newline>                3. Apply the Terraform configuration to create the infrastructure\<newline>                4. Generate the necessary scripts for setting up the Kubernetes cluster\<newline>                5. Configure the master node(s)\<newline>                6. Configure the worker nodes\<newline>                7. Verify the cluster is properly set up\<newline>                \<newline>                I'll be using the SSH key at ''
       @ py_str (config_get config ''ssh_private_key_path'' (JStr ''~/.ssh/id_rsa''))
       @ '' for accessing the instances.\<newline>                '')\<close>

definition destroy_prompt :: string where
  \<open>destroy_prompt =
     ''\<newline>                Please destroy the Kubernetes cluster that was created.\<newline>                Run terraform destroy with auto-approve to remove all resources.\<newline>                ''\<close>

type_synonym result_dict = "(string \<times> json) list"

definition setup_kubernetes_cluster :: "'w manager \<Rightarrow> config \<Rightarrow> ('w, result_dict) action" where
  "setup_kubernetes_cluster self config =
     try_except
       (then_do (create_terraform_files self config) (\<lambda>u.
        then_do (agent_invoke self (setup_prompt (working_dir self) config)) (\<lambda>result.
        return_value
          [(''success'', JBool True),
           (''message'', JStr ''Kubernetes cluster setup completed successfully''),
           (''agent_output'', result)])))
       (\<lambda>e.
          case str_raised e of
            Inl r \<Rightarrow> Inl r
          | Inr s \<Rightarrow>
              Inr [(''success'', JBool False),
                   (''message'', JStr (''Error setting up Kubernetes cluster: '' @ s)),
                   (''error'', JStr s)])"

definition destroy_cluster :: "'w manager \<Rightarrow> ('w, result_dict) action" where
  "destroy_cluster self =
     try_except
       (then_do (agent_invoke self destroy_prompt) (\<lambda>result.
        return_value
          [(''success'', JBool True),
           (''message'', JStr ''Kubernetes cluster destroyed successfully''),
           (''agent_output'', result)]))
       (\<lambda>e.
          case str_raised e of
            Inl r \<Rightarrow> Inl r
          | Inr s \<Rightarrow>
              Inr [(''success'', JBool False),
                   (''message'', JStr (''Error destroying Kubernetes cluster: '' @ s)),
                   (''error'', JStr s)])"

text \<open>
  For the order and the number of operations, the world is the log of the tool calls the
  agent has made: which tool, with which arguments.
\<close>

datatype tool_call =
    TerraformCall string string
  | SshExecute string string
  | ScpTransfer string string string bool bool
  | GenerateScript string string "(string \<times> string) list option"

text \<open>
  The calls that use the SSH connection to a host, and the call that generates the
  script by which a worker joins the cluster.
\<close>

fun is_remote :: "tool_call \<Rightarrow> bool" where
  "is_remote (SshExecute host cmd) = True"
| "is_remote (ScpTransfer host local_path remote_path upload recursive) = True"
| "is_remote c = False"

definition remote_calls :: "tool_call list \<Rightarrow> nat" where
  "remote_calls calls = length (filter is_remote calls)"

fun is_worker_join :: "tool_call \<Rightarrow> bool" where
  "is_worker_join (GenerateScript script_type output_path parameters) =
     (script_type = ''k8s_worker'')"
| "is_worker_join c = False"

fun is_master_setup :: "tool_call \<Rightarrow> bool" where
  "is_master_setup (GenerateScript script_type output_path parameters) =
     (script_type = ''k8s_master'')"
| "is_master_setup c = False"

text \<open>
  The join command comes from the master script, so no join credential exists before a
  master script has been generated. \<open>joins_follow_master seen calls\<close>: every worker-join
  call of the log has a master-script call before it (\<open>seen\<close>: one was made already).
\<close>

fun joins_follow_master :: "bool \<Rightarrow> tool_call list \<Rightarrow> bool" where
  "joins_follow_master seen [] = True"
| "joins_follow_master seen (c # cs) =
     (if is_worker_join c then seen \<and> joins_follow_master seen cs
      else joins_follow_master (seen \<or> is_master_setup c) cs)"

text \<open>
  Two agents for the examples. The first one, at every invocation, checks the nodes over
  SSH and returns. The second one generates, transfers and runs the worker script and
  returns, without any call for the control plane.
\<close>

definition no_files :: "config \<Rightarrow> ('w, unit) action" where
  "no_files c w = (Inr (), w)"

definition eager_agent :: "string \<Rightarrow> (tool_call list, json) action" where
  "eager_agent prompt calls =
     (Inr (JStr ''3 nodes Ready''), calls @ [SshExecute ''10.0.1.10'' ''kubectl get nodes''])"

definition eager_manager :: "tool_call list manager" where
  "eager_manager =
     \<lparr>create_terraform_files = no_files, agent_invoke = eager_agent,
      working_dir = ''./k8s_setup''\<rparr>"

definition hasty_agent :: "string \<Rightarrow> (tool_call list, json) action" where
  "hasty_agent prompt calls =
     (Inr (JStr ''worker configured''),
      calls @ [GenerateScript ''k8s_worker'' ''./k8s_setup/scripts/worker.sh'' (Some []),
               ScpTransfer ''10.0.2.11'' ''./k8s_setup/scripts/worker.sh'' ''/tmp/worker.sh''
                 True False,
               SshExecute ''10.0.2.11'' ''sudo bash /tmp/worker.sh''])"

definition hasty_manager :: "tool_call list manager" where
  "hasty_manager =
     \<lparr>create_terraform_files = no_files, agent_invoke = hasty_agent,
      working_dir = ''./k8s_setup''\<rparr>"

text \<open>
  Three more: an agent whose call of the model raises an \<open>Exception\<close>, one that is
  interrupted from the keyboard while it runs, and one that raises an \<open>Exception\<close> whose
  \<open>__str__\<close> raises \<open>TypeError\<close>.
\<close>

definition failing_agent :: "string \<Rightarrow> (tool_call list, json) action" where
  "failing_agent prompt calls = (Inl (Exc (OtherException ''Rate limit reached'')), calls)"

definition failing_manager :: "tool_call list manager" where
  "failing_manager =
     \<lparr>create_terraform_files = no_files, agent_invoke = failing_agent,
      working_dir = ''./k8s_setup''\<rparr>"

definition interrupted_agent :: "string \<Rightarrow> (tool_call list, json) action" where
  "interrupted_agent prompt calls = (Inl KeyboardInterrupt, calls)"

definition interrupted_manager :: "tool_call list manager" where
  "interrupted_manager =
     \<lparr>create_terraform_files = no_files, agent_invoke = interrupted_agent,
      working_dir = ''./k8s_setup''\<rparr>"

definition garbled_agent :: "string \<Rightarrow> (tool_call list, json) action" where
  "garbled_agent prompt calls =
     (Inl (Unprintable (Exc (TypeError ''__str__ returned non-string''))), calls)"

definition garbled_manager :: "tool_call list manager" where
  "garbled_manager =
     \<lparr>create_terraform_files = no_files, agent_invoke = garbled_agent,
      working_dir = ''./k8s_setup''\<rparr>"


section \<open>Recursive transfers: trees, destinations and the order of requests\<close>



text \<open>Every path from \<open>base\<close> down to \<open>base @ ns\<close>, \<open>base\<close> itself apart, is a directory.\<close>

fun all_dirs_from :: "fs \<Rightarrow> path \<Rightarrow> string list \<Rightarrow> bool" where
  "all_dirs_from f base [] = True"
| "all_dirs_from f base (n # ns) =
     (node_at f (base @ [n]) = Some NDir \<and> all_dirs_from f (base @ [n]) ns)"











section \<open>Properties of \<open>validate_config\<close>\<close>

lemma missing_upd:
  "filter (\<lambda>field. (c(''worker_count'' \<mapsto> v)) field = None) required_fields
   = filter (\<lambda>field. (c(''worker_count'' \<mapsto> v')) field = None) required_fields"
  by (rule filter_cong) auto

lemma getitem_upd_other:
  "k \<noteq> k' \<Longrightarrow> getitem (c(k' \<mapsto> v)) k = getitem c k"
  by (simp add: getitem_def)

lemma key_missing_upd_other:
  "k \<noteq> k' \<Longrightarrow> key_missing pe eu (c(k' \<mapsto> v)) k label = key_missing pe eu c k label"
  by (simp add: key_missing_def getitem_upd_other)

text \<open>
  With \<open>worker_count\<close> set, the function reads the other fields only: the stored value
  occurs nowhere on the right-hand side.
\<close>

lemma validate_config_worker_upd:
  "validate_config pe eu (c(''worker_count'' \<mapsto> v))
   = (let missing_fields =
            filter (\<lambda>field. (c(''worker_count'' \<mapsto> JNull)) field = None) required_fields in
      if missing_fields \<noteq> []
      then ([''Missing required configuration fields: '' @ join_str '', '' missing_fields],
            Inr False)
      else
        (case getitem c ''master_count'' of
           Inl e \<Rightarrow> ([], Inl e)
         | Inr mc \<Rightarrow>
             (case lt_one mc of
                Inl e \<Rightarrow> ([], Inl e)
              | Inr True \<Rightarrow> ([''At least one master node is required''], Inr False)
              | Inr False \<Rightarrow>
                  (case key_missing pe eu c
                          ''ssh_public_key_path'' ''SSH public key'' of
                     Inl e \<Rightarrow> ([], Inl e)
                   | Inr (Some msg) \<Rightarrow> ([msg], Inr False)
                   | Inr None \<Rightarrow>
                       (case key_missing pe eu c
                               ''ssh_private_key_path'' ''SSH private key'' of
                          Inl e \<Rightarrow> ([], Inl e)
                        | Inr (Some msg) \<Rightarrow> ([msg], Inr False)
                        | Inr None \<Rightarrow> ([], Inr True))))))"
proof -
  have g: "getitem (c(''worker_count'' \<mapsto> v)) ''master_count'' = getitem c ''master_count''"
    by (rule getitem_upd_other) simp
  have k1: "key_missing pe eu (c(''worker_count'' \<mapsto> v)) ''ssh_public_key_path'' ''SSH public key''
      = key_missing pe eu c ''ssh_public_key_path'' ''SSH public key''"
    by (rule key_missing_upd_other) simp
  have k2: "key_missing pe eu (c(''worker_count'' \<mapsto> v)) ''ssh_private_key_path'' ''SSH private key''
      = key_missing pe eu c ''ssh_private_key_path'' ''SSH private key''"
    by (rule key_missing_upd_other) simp
  show ?thesis
    unfolding validate_config_def missing_upd [of c v JNull] g k1 k2 ..
qed

lemma validate_config_no_master:
  assumes "c ''master_count'' = Some (JInt n)" and "n < 1"
  shows "snd (validate_config pe eu c) = Inr False"
proof (cases "filter (\<lambda>field. c field = None) required_fields = []")
  case True
  then show ?thesis using assms
    by (simp add: validate_config_def getitem_def del: filter_False)
next
  case False
  then show ?thesis
    by (simp add: validate_config_def del: filter_False)
qed

text \<open>
  C6, as the code has it: a configuration whose \<open>master_count\<close> is an integer below 1 is
  rejected (\<open>False\<close> is returned), whatever the rest of it holds; and the value stored
  under \<open>worker_count\<close> has no influence on the result: only the presence of the key is
  checked.
\<close>

theorem validate_config_master_only:
  "(c ''master_count'' = Some (JInt n) \<and> n < 1 \<longrightarrow>
      snd (validate_config path_exists expanduser c) = Inr False)
   \<and> validate_config path_exists expanduser (c(''worker_count'' \<mapsto> v))
     = validate_config path_exists expanduser (c(''worker_count'' \<mapsto> v'))"
proof
  show "c ''master_count'' = Some (JInt n) \<and> n < 1 \<longrightarrow>
      snd (validate_config path_exists expanduser c) = Inr False"
    using validate_config_no_master [of c n path_exists expanduser] by blast
next
  show "validate_config path_exists expanduser (c(''worker_count'' \<mapsto> v))
     = validate_config path_exists expanduser (c(''worker_count'' \<mapsto> v'))"
    by (simp only: validate_config_worker_upd)
qed

theorem validate_config_master_only_witness:
  "((default_config 2)(''master_count'' \<mapsto> JInt 0)) ''master_count'' = Some (JInt 0)
   \<and> (0::int) < 1
   \<and> snd (validate_config keys_present id ((default_config 2)(''master_count'' \<mapsto> JInt 0)))
       = Inr False"
  using validate_config_master_only
    [of "(default_config 2)(''master_count'' \<mapsto> JInt 0)" 0 keys_present id]
  by simp

text \<open>
  C6 as stated fails: the default configuration with \<open>worker_count = -1\<close>, both key files
  present, is accepted.
\<close>

theorem validate_config_negative_workers:
  "default_config (- 1) ''worker_count'' = Some (JInt (- 1))
   \<and> validate_config keys_present id (default_config (- 1)) = ([], Inr True)"
  by (simp add: validate_config_def Let_def getitem_def key_missing_def default_config_def
      required_fields_def keys_present_def)


section \<open>Properties of \<open>SSHConnectionTool._run\<close>\<close>

text \<open>
  C4, as the code has it: when the command completes, \<open>_run\<close> returns one string. For exit
  status 0 it is a fixed prefix followed by the standard output (the standard error is not
  in it); for any other status it is the status in decimal followed by the standard error
  (the standard output is not in it).
\<close>

theorem SSHConnectionTool_run_result:
  "net k \<lparr>hostname = host, username = user, key_filename = expanduser key_path,
           port = prt, timeout = tmo\<rparr> cmd = Completed st out err \<Longrightarrow>
   fst (SSHConnectionTool_run expanduser net host user key_path prt cmd tmo k)
     = (if st = 0 then ''Command executed successfully:\<newline>'' @ out
        else ''Command failed with exit status '' @ str_int st @ '':\<newline>'' @ err)"
  by (simp add: SSHConnectionTool_run_def Let_def)

theorem SSHConnectionTool_run_result_witness:
  "fst (SSHConnectionTool_run id (always (Completed 2 ''partial'' ''No such file'')) ''10.0.1.10''
          ''ubuntu'' ''~/.ssh/id_rsa'' 22 ''ls /x'' 30 0)
     = ''Command failed with exit status 2:\<newline>No such file''"
  using SSHConnectionTool_run_result [of "always (Completed 2 ''partial'' ''No such file'')" 0
      "''10.0.1.10''" "''ubuntu''" id "''~/.ssh/id_rsa''" 22 30 "''ls /x''" 2
      "''partial''" "''No such file''"]
  by (simp add: always_def str_int_def digit_char_def)

text \<open>
  C4 as stated fails: two successful commands that differ in their standard error give the
  same return value, and so do two failed commands that differ in their standard output.
\<close>

theorem SSHConnectionTool_run_drops_stream:
  "fst (SSHConnectionTool_run id (always (Completed 0 ''ok'' ''warning: deprecated''))
          ''10.0.1.10'' ''ubuntu'' ''~/.ssh/id_rsa'' 22 ''ls'' 30 0)
   = fst (SSHConnectionTool_run id (always (Completed 0 ''ok'' []))
          ''10.0.1.10'' ''ubuntu'' ''~/.ssh/id_rsa'' 22 ''ls'' 30 0)
   \<and> fst (SSHConnectionTool_run id (always (Completed 1 ''step 1 done'' ''boom''))
          ''10.0.1.10'' ''ubuntu'' ''~/.ssh/id_rsa'' 22 ''ls'' 30 0)
   = fst (SSHConnectionTool_run id (always (Completed 1 [] ''boom''))
          ''10.0.1.10'' ''ubuntu'' ''~/.ssh/id_rsa'' 22 ''ls'' 30 0)"
  by (simp add: SSHConnectionTool_run_def Let_def always_def)


section \<open>Properties of \<open>ScriptGeneratorTool\<close>\<close>

lemma run_success_iff:
  assumes "fst (ScriptGeneratorTool_run script_type output_path parameters d)
           = ''Script generated at '' @ output_path"
  shows "\<exists>f1 script f2. makedirs_str (nodes d) (dirname output_path) True = Inr f1
          \<and> generate_script script_type parameters = Some (Inr script)
          \<and> write_file f1 (components output_path) script = Inr f2
          \<and> snd (ScriptGeneratorTool_run script_type output_path parameters d)
              = \<lparr>nodes = f2, modes = (modes d)(components output_path \<mapsto> 493)\<rparr>"
  using assms
  by (auto simp add: ScriptGeneratorTool_run_def split: sum.splits option.splits)

lemma write_file_content:
  "write_file f p script = Inr f2 \<Longrightarrow> f2 p = Some (NFile script)"
  by (auto simp add: write_file_def split: if_splits)

lemma run_success_content:
  assumes "fst (ScriptGeneratorTool_run script_type output_path parameters d)
           = ''Script generated at '' @ output_path"
  shows "\<exists>script. generate_script script_type parameters = Some (Inr script)
          \<and> nodes (snd (ScriptGeneratorTool_run script_type output_path parameters d))
               (components output_path) = Some (NFile script)
          \<and> modes (snd (ScriptGeneratorTool_run script_type output_path parameters d))
               (components output_path) = Some 493"
proof -
  from run_success_iff [OF assms] obtain f1 script f2 where
    g: "generate_script script_type parameters = Some (Inr script)" and
    w: "write_file f1 (components output_path) script = Inr f2" and
    s: "snd (ScriptGeneratorTool_run script_type output_path parameters d)
              = \<lparr>nodes = f2, modes = (modes d)(components output_path \<mapsto> 493)\<rparr>"
    by blast
  from write_file_content [OF w] g s show ?thesis by simp
qed

lemma worker_script_text:
  \<open>generate_k8s_worker_script (Some m) =
     Inr (''#!/bin/bash\<newline>set -e\<newline>\<newline># Worker node setup script\<newline>\<newline># Join the cluster\<newline>''
          @ (case m ''join_command'' of None \<Rightarrow> [] | Some j \<Rightarrow> j)
          @ ''\<newline>\<newline>echo "Worker node joined the cluster!"\<newline>'')\<close>
  by (simp add: generate_k8s_worker_script_def params_get_def unlines_def)

lemma common_script_text:
  \<open>generate_common_script (Some (m(''kubernetes_version'' \<mapsto> v))) =
     Inr (''#!/bin/bash\<newline>set -e\<newline>\<newline># Common setup script for Kubernetes nodes\<newline>\<newline># Update system and install dependencies\<newline>apt-get update\<newline>apt-get upgrade -y\<newline>apt-get install -y apt-transport-https ca-certificates curl software-properties-common gnupg\<newline>\<newline># Disable swap\<newline>swapoff -a\<newline>sed -i '/swap/d' /etc/fstab\<newline>\<newline># Load kernel modules\<newline>cat <<EOF | tee /etc/modules-load.d/k8s.conf\<newline>overlay\<newline>br_netfilter\<newline>EOF\<newline>\<newline>modprobe overlay\<newline>modprobe br_netfilter\<newline>\<newline># Set up required sysctl params\<newline>cat <<EOF | tee /etc/sysctl.d/k8s.conf\<newline>net.bridge.bridge-nf-call-iptables  = 1\<newline>net.bridge.bridge-nf-call-ip6tables = 1\<newline>net.ipv4.ip_forward                 = 1\<newline>EOF\<newline>\<newline>sysctl --system\<newline>\<newline># Install containerd\<newline>curl -fsSL https://download.docker.com/linux/ubuntu/gpg | gpg --dearmor -o /etc/apt/keyrings/docker.gpg\<newline>echo "deb [arch=$(dpkg --print-architecture) signed-by=/etc/apt/keyrings/docker.gpg] https://download.docker.com/linux/ubuntu $(lsb_release -cs) stable" | tee /etc/apt/sources.list.d/docker.list\<newline>apt-get update\<newline>apt-get install -y containerd.io\<newline>\<newline># Configure containerd to use systemd as cgroup driver\<newline>mkdir -p /etc/containerd\<newline>containerd config default | tee /etc/containerd/config.toml\<newline>sed -i 's/SystemdCgroup = false/SystemdCgroup = true/g' /etc/containerd/config.toml\<newline>systemctl restart containerd\<newline>systemctl enable containerd\<newline>\<newline># Install Kubernetes components\<newline>curl -fsSL https://pkgs.k8s.io/core:/stable:/v''
          @ v @ ''/deb/Release.key | gpg --dearmor -o /etc/apt/keyrings/kubernetes-apt-keyring.gpg\<newline>echo "deb [signed-by=/etc/apt/keyrings/kubernetes-apt-keyring.gpg] https://pkgs.k8s.io/core:/stable:/v''
          @ v @ ''/deb/ /" | tee /etc/apt/sources.list.d/kubernetes.list\<newline>apt-get update\<newline>apt-get install -y kubelet kubeadm kubectl\<newline>apt-mark hold kubelet kubeadm kubectl\<newline>\<newline>echo "Common node setup completed!"\<newline>'')\<close>
  by (simp add: generate_common_script_def params_get_def unlines_def)

lemma master_script_text:
  \<open>generate_k8s_master_script (Some m) =
     Inr ((''#!/bin/bash\<newline>set -e\<newline>\<newline># Master node setup script\<newline>\<newline># Initialize Kubernetes cluster\<newline>kubeadm init --pod-network-cidr=''
          @ (case m ''pod_network_cidr'' of None \<Rightarrow> ''10.244.0.0/16'' | Some v \<Rightarrow> v) @ '' --service-cidr=''
          @ (case m ''service_cidr'' of None \<Rightarrow> ''10.96.0.0/12'' | Some v \<Rightarrow> v) @ ''\<newline>\<newline># Set up kubeconfig for the user\<newline>mkdir -p $HOME/.kube\<newline>cp -i /etc/kubernetes/admin.conf $HOME/.kube/config\<newline>chown $(id -u):$(id -g) $HOME/.kube/config\<newline>\<newline># Install Calico network plugin\<newline>kubectl create -f https://raw.githubusercontent.com/projectcalico/calico/master/manifests/tigera-operator.yaml\<newline>kubectl create -f https://raw.githubusercontent.com/projectcalico/calico/master/manifests/custom-resources.yaml\<newline>\<newline># Generate join command for worker nodes\<newline>JOIN_COMMAND=$(kubeadm token create --print-join-command)\<newline>'')
          @ ''echo "$JOIN_COMMAND" > /root/k8s_join_command.sh'' @ ''\<newline>\<newline># Output cluster info\<newline>kubectl cluster-info\<newline>kubectl get nodes\<newline>\<newline>echo "Master node setup completed!"\<newline>'')\<close>
  by (simp add: generate_k8s_master_script_def params_get_def unlines_def)

lemma master_script_persists:
  \<open>\<exists>script. generate_k8s_master_script (Some m) = Inr script
      \<and> sublist ''echo "$JOIN_COMMAND" > /root/k8s_join_command.sh'' script\<close>
  unfolding master_script_text sublist_def by blast

lemma dirname_worker_sh: "dirname ''k8s_setup/scripts/worker.sh'' = ''k8s_setup/scripts''"
  by (simp add: dirname_def)

lemma components_worker_sh:
  "components ''k8s_setup/scripts/worker.sh'' = [''k8s_setup'', ''scripts'', ''worker.sh'']"
  by (simp add: components_def)

lemma components_scripts: "components ''k8s_setup/scripts'' = [''k8s_setup'', ''scripts'']"
  by (simp add: components_def)

lemmas run_worker_sh_defs =
  ScriptGeneratorTool_run_def dirname_worker_sh components_worker_sh components_scripts
  makedirs_str_def makedirs_def node_at_def empty_disk_def empty_fs_def generate_script_def
  generate_k8s_worker_script_def params_get_def worker_params_def write_file_def

lemma run_worker_sh_message:
  \<open>fst (ScriptGeneratorTool_run ''k8s_worker'' ''k8s_setup/scripts/worker.sh''
          (worker_params j) empty_disk)
   = ''Script generated at k8s_setup/scripts/worker.sh''\<close>
  by (simp add: run_worker_sh_defs)

text \<open>
  C7: the text that a successful \<open>_run\<close> leaves in the file is the value of
  \<open>generate_script\<close> at the script type and the parameters, whatever the disk and the
  output path are, and no network takes part in it; the worker script is a fixed text
  around the \<open>join_command\<close> parameter, the common script a fixed text around the two
  occurrences of the \<open>kubernetes_version\<close> parameter.
\<close>

theorem script_text_function_of_inputs:
  \<open>(fst (ScriptGeneratorTool_run script_type output_path parameters d)
        = ''Script generated at '' @ output_path \<longrightarrow>
     (\<exists>script. generate_script script_type parameters = Some (Inr script)
        \<and> nodes (snd (ScriptGeneratorTool_run script_type output_path parameters d))
             (components output_path) = Some (NFile script)))
   \<and> generate_script ''k8s_worker'' (Some (m(''join_command'' \<mapsto> j))) =
       Some (Inr (''#!/bin/bash\<newline>set -e\<newline>\<newline># Worker node setup script\<newline>\<newline># Join the cluster\<newline>''
          @ j @ ''\<newline>\<newline>echo "Worker node joined the cluster!"\<newline>''))
   \<and> generate_script ''common'' (Some (m(''kubernetes_version'' \<mapsto> v))) =
       Some (Inr (''#!/bin/bash\<newline>set -e\<newline>\<newline># Common setup script for Kubernetes nodes\<newline>\<newline># Update system and install dependencies\<newline>apt-get update\<newline>apt-get upgrade -y\<newline>apt-get install -y apt-transport-https ca-certificates curl software-properties-common gnupg\<newline>\<newline># Disable swap\<newline>swapoff -a\<newline>sed -i '/swap/d' /etc/fstab\<newline>\<newline># Load kernel modules\<newline>cat <<EOF | tee /etc/modules-load.d/k8s.conf\<newline>overlay\<newline>br_netfilter\<newline>EOF\<newline>\<newline>modprobe overlay\<newline>modprobe br_netfilter\<newline>\<newline># Set up required sysctl params\<newline>cat <<EOF | tee /etc/sysctl.d/k8s.conf\<newline>net.bridge.bridge-nf-call-iptables  = 1\<newline>net.bridge.bridge-nf-call-ip6tables = 1\<newline>net.ipv4.ip_forward                 = 1\<newline>EOF\<newline>\<newline>sysctl --system\<newline>\<newline># Install containerd\<newline>curl -fsSL https://download.docker.com/linux/ubuntu/gpg | gpg --dearmor -o /etc/apt/keyrings/docker.gpg\<newline>echo "deb [arch=$(dpkg --print-architecture) signed-by=/etc/apt/keyrings/docker.gpg] https://download.docker.com/linux/ubuntu $(lsb_release -cs) stable" | tee /etc/apt/sources.list.d/docker.list\<newline>apt-get update\<newline>apt-get install -y containerd.io\<newline>\<newline># Configure containerd to use systemd as cgroup driver\<newline>mkdir -p /etc/containerd\<newline>containerd config default | tee /etc/containerd/config.toml\<newline>sed -i 's/SystemdCgroup = false/SystemdCgroup = true/g' /etc/containerd/config.toml\<newline>systemctl restart containerd\<newline>systemctl enable containerd\<newline>\<newline># Install Kubernetes components\<newline>curl -fsSL https://pkgs.k8s.io/core:/stable:/v''
          @ v @ ''/deb/Release.key | gpg --dearmor -o /etc/apt/keyrings/kubernetes-apt-keyring.gpg\<newline>echo "deb [signed-by=/etc/apt/keyrings/kubernetes-apt-keyring.gpg] https://pkgs.k8s.io/core:/stable:/v''
          @ v @ ''/deb/ /" | tee /etc/apt/sources.list.d/kubernetes.list\<newline>apt-get update\<newline>apt-get install -y kubelet kubeadm kubectl\<newline>apt-mark hold kubelet kubeadm kubectl\<newline>\<newline>echo "Common node setup completed!"\<newline>''))\<close>
proof (intro conjI impI)
  assume "fst (ScriptGeneratorTool_run script_type output_path parameters d)
        = ''Script generated at '' @ output_path"
  from run_success_content [OF this]
  show "\<exists>script. generate_script script_type parameters = Some (Inr script)
        \<and> nodes (snd (ScriptGeneratorTool_run script_type output_path parameters d))
             (components output_path) = Some (NFile script)"
    by blast
next
  show \<open>generate_script ''k8s_worker'' (Some (m(''join_command'' \<mapsto> j))) =
       Some (Inr (''#!/bin/bash\<newline>set -e\<newline>\<newline># Worker node setup script\<newline>\<newline># Join the cluster\<newline>''
          @ j @ ''\<newline>\<newline>echo "Worker node joined the cluster!"\<newline>''))\<close>
    by (simp add: generate_script_def worker_script_text)
next
  show \<open>generate_script ''common'' (Some (m(''kubernetes_version'' \<mapsto> v))) =
       Some (Inr (''#!/bin/bash\<newline>set -e\<newline>\<newline># Common setup script for Kubernetes nodes\<newline>\<newline># Update system and install dependencies\<newline>apt-get update\<newline>apt-get upgrade -y\<newline>apt-get install -y apt-transport-https ca-certificates curl software-properties-common gnupg\<newline>\<newline># Disable swap\<newline>swapoff -a\<newline>sed -i '/swap/d' /etc/fstab\<newline>\<newline># Load kernel modules\<newline>cat <<EOF | tee /etc/modules-load.d/k8s.conf\<newline>overlay\<newline>br_netfilter\<newline>EOF\<newline>\<newline>modprobe overlay\<newline>modprobe br_netfilter\<newline>\<newline># Set up required sysctl params\<newline>cat <<EOF | tee /etc/sysctl.d/k8s.conf\<newline>net.bridge.bridge-nf-call-iptables  = 1\<newline>net.bridge.bridge-nf-call-ip6tables = 1\<newline>net.ipv4.ip_forward                 = 1\<newline>EOF\<newline>\<newline>sysctl --system\<newline>\<newline># Install containerd\<newline>curl -fsSL https://download.docker.com/linux/ubuntu/gpg | gpg --dearmor -o /etc/apt/keyrings/docker.gpg\<newline>echo "deb [arch=$(dpkg --print-architecture) signed-by=/etc/apt/keyrings/docker.gpg] https://download.docker.com/linux/ubuntu $(lsb_release -cs) stable" | tee /etc/apt/sources.list.d/docker.list\<newline>apt-get update\<newline>apt-get install -y containerd.io\<newline>\<newline># Configure containerd to use systemd as cgroup driver\<newline>mkdir -p /etc/containerd\<newline>containerd config default | tee /etc/containerd/config.toml\<newline>sed -i 's/SystemdCgroup = false/SystemdCgroup = true/g' /etc/containerd/config.toml\<newline>systemctl restart containerd\<newline>systemctl enable containerd\<newline>\<newline># Install Kubernetes components\<newline>curl -fsSL https://pkgs.k8s.io/core:/stable:/v''
          @ v @ ''/deb/Release.key | gpg --dearmor -o /etc/apt/keyrings/kubernetes-apt-keyring.gpg\<newline>echo "deb [signed-by=/etc/apt/keyrings/kubernetes-apt-keyring.gpg] https://pkgs.k8s.io/core:/stable:/v''
          @ v @ ''/deb/ /" | tee /etc/apt/sources.list.d/kubernetes.list\<newline>apt-get update\<newline>apt-get install -y kubelet kubeadm kubectl\<newline>apt-mark hold kubelet kubeadm kubectl\<newline>\<newline>echo "Common node setup completed!"\<newline>''))\<close>
    by (simp only: generate_script_def common_script_text) simp
qed

theorem script_text_function_of_inputs_witness:
  \<open>fst (ScriptGeneratorTool_run ''k8s_worker'' ''k8s_setup/scripts/worker.sh''
          (worker_params ''kubeadm join 10.0.1.10:6443'') empty_disk)
     = ''Script generated at '' @ ''k8s_setup/scripts/worker.sh''
   \<and> (\<exists>script. generate_script ''k8s_worker'' (worker_params ''kubeadm join 10.0.1.10:6443'')
          = Some (Inr script)
        \<and> nodes (snd (ScriptGeneratorTool_run ''k8s_worker'' ''k8s_setup/scripts/worker.sh''
                        (worker_params ''kubeadm join 10.0.1.10:6443'') empty_disk))
             (components ''k8s_setup/scripts/worker.sh'') = Some (NFile script))\<close>
proof -
  have h: \<open>fst (ScriptGeneratorTool_run ''k8s_worker'' ''k8s_setup/scripts/worker.sh''
          (worker_params ''kubeadm join 10.0.1.10:6443'') empty_disk)
     = ''Script generated at '' @ ''k8s_setup/scripts/worker.sh''\<close>
    by (simp add: run_worker_sh_message)
  from script_text_function_of_inputs
    [of "''k8s_worker''" "''k8s_setup/scripts/worker.sh''"
        "worker_params ''kubeadm join 10.0.1.10:6443''" empty_disk]
    h
  show ?thesis by blast
qed

text \<open>
  C5, as the code has it: the join command is written to durable storage. A successful
  \<open>_run\<close> for a worker script leaves a file on the local disk, with mode 0755, whose text
  contains the \<open>join_command\<close> parameter; and every master script contains the line
  that stores the join command in \<open>/root/k8s_join_command.sh\<close> on the control-plane
  host.
\<close>

theorem join_command_written_to_disk:
  \<open>(fst (ScriptGeneratorTool_run ''k8s_worker'' output_path
            (Some (m(''join_command'' \<mapsto> j))) d)
        = ''Script generated at '' @ output_path \<longrightarrow>
     (\<exists>script.
        nodes (snd (ScriptGeneratorTool_run ''k8s_worker'' output_path
                      (Some (m(''join_command'' \<mapsto> j))) d))
          (components output_path) = Some (NFile script)
        \<and> sublist j script
        \<and> modes (snd (ScriptGeneratorTool_run ''k8s_worker'' output_path
                         (Some (m(''join_command'' \<mapsto> j))) d))
            (components output_path) = Some 493))
   \<and> (\<exists>script. generate_k8s_master_script (Some m') = Inr script
        \<and> sublist ''echo "$JOIN_COMMAND" > /root/k8s_join_command.sh'' script)\<close>
proof (intro conjI impI)
  assume "fst (ScriptGeneratorTool_run ''k8s_worker'' output_path
            (Some (m(''join_command'' \<mapsto> j))) d)
        = ''Script generated at '' @ output_path"
  from run_success_content [OF this] obtain script where
    g: "generate_script ''k8s_worker'' (Some (m(''join_command'' \<mapsto> j))) = Some (Inr script)"
    and n: "nodes (snd (ScriptGeneratorTool_run ''k8s_worker'' output_path
                      (Some (m(''join_command'' \<mapsto> j))) d))
          (components output_path) = Some (NFile script)"
    and md: "modes (snd (ScriptGeneratorTool_run ''k8s_worker'' output_path
                         (Some (m(''join_command'' \<mapsto> j))) d))
            (components output_path) = Some 493"
    by blast
  have "\<exists>ps ss. generate_k8s_worker_script (Some (m(''join_command'' \<mapsto> j)))
           = Inr (ps @ j @ ss)"
    by (simp only: worker_script_text fun_upd_same option.case) blast
  with g have "\<exists>ps ss. script = ps @ j @ ss"
    by (auto simp add: generate_script_def)
  then have "sublist j script" by (simp add: sublist_def)
  with n md show "\<exists>script.
        nodes (snd (ScriptGeneratorTool_run ''k8s_worker'' output_path
                      (Some (m(''join_command'' \<mapsto> j))) d))
          (components output_path) = Some (NFile script)
        \<and> sublist j script
        \<and> modes (snd (ScriptGeneratorTool_run ''k8s_worker'' output_path
                         (Some (m(''join_command'' \<mapsto> j))) d))
            (components output_path) = Some 493"
    by blast
next
  show \<open>\<exists>script. generate_k8s_master_script (Some m') = Inr script
        \<and> sublist ''echo "$JOIN_COMMAND" > /root/k8s_join_command.sh'' script\<close>
    by (rule master_script_persists)
qed

theorem join_command_written_to_disk_witness:
  \<open>fst (ScriptGeneratorTool_run ''k8s_worker'' ''k8s_setup/scripts/worker.sh''
            (Some ((\<lambda>k. None)(''join_command'' \<mapsto> ''kubeadm join 10.0.1.10:6443 --token t0ken''))) empty_disk)
        = ''Script generated at '' @ ''k8s_setup/scripts/worker.sh''
   \<and> (\<exists>script.
        nodes (snd (ScriptGeneratorTool_run ''k8s_worker'' ''k8s_setup/scripts/worker.sh''
            (Some ((\<lambda>k. None)(''join_command'' \<mapsto> ''kubeadm join 10.0.1.10:6443 --token t0ken''))) empty_disk))
          (components ''k8s_setup/scripts/worker.sh'') = Some (NFile script)
        \<and> sublist ''kubeadm join 10.0.1.10:6443 --token t0ken'' script)\<close>
proof -
  have h: \<open>fst (ScriptGeneratorTool_run ''k8s_worker'' ''k8s_setup/scripts/worker.sh''
            (Some ((\<lambda>k. None)(''join_command'' \<mapsto> ''kubeadm join 10.0.1.10:6443 --token t0ken''))) empty_disk)
        = ''Script generated at '' @ ''k8s_setup/scripts/worker.sh''\<close>
    by (simp add: run_worker_sh_defs)
  from join_command_written_to_disk
    [of "''k8s_setup/scripts/worker.sh''" "\<lambda>k. None"
        "''kubeadm join 10.0.1.10:6443 --token t0ken''" empty_disk]
    h
  show ?thesis by blast
qed

text \<open>
  C5 as stated fails: after generating the worker script for a join command on an empty
  disk, the file \<open>k8s_setup/scripts/worker.sh\<close> holds the join command, token included,
  and is readable by every user.
\<close>

theorem worker_script_file_holds_credential:
  \<open>nodes (snd (ScriptGeneratorTool_run ''k8s_worker'' ''k8s_setup/scripts/worker.sh''
      (worker_params sample_join_command) empty_disk)) [''k8s_setup'', ''scripts'', ''worker.sh'']
    = Some (NFile (''#!/bin/bash\<newline>set -e\<newline>\<newline># Worker node setup script\<newline>\<newline># Join the cluster\<newline>''
          @ ''kubeadm join 10.0.1.10:6443 --token abcdef.0123456789abcdef --discovery-token-ca-cert-hash sha256:1234''
          @ ''\<newline>\<newline>echo "Worker node joined the cluster!"\<newline>''))
   \<and> modes (snd (ScriptGeneratorTool_run ''k8s_worker'' ''k8s_setup/scripts/worker.sh''
      (worker_params sample_join_command) empty_disk)) [''k8s_setup'', ''scripts'', ''worker.sh'']
    = Some 493\<close>
  by (simp add: run_worker_sh_defs unlines_def sample_join_command_def)


section \<open>Properties of the Terraform tools\<close>

lemma finally_up_child: "snd (finally_chdir_up r (cwd @ [n])) = cwd"
  by (simp add: finally_chdir_up_def)

text \<open>
  A name of the working directory that is a directory and not a symbolic link is entered
  as that child.
\<close>

lemma chdir_child:
  assumes "workspace_dir \<noteq> []" and "hd workspace_dir \<noteq> CHR ''/''"
    and "components workspace_dir = [n]" and "n \<noteq> ''..''"
    and "l (cwd @ [n]) = None" and "f (cwd @ [n]) = Some NDir"
  shows "chdir f l cwd workspace_dir = Inr (cwd @ [n])"
  using assms by (simp add: chdir_def node_at_def)

text \<open>
  C10, as the code has it: when the directory that \<open>os.chdir(workspace_dir)\<close> enters is
  physically a child of the working directory, each of the five tools leaves the working
  directory as it found it, whatever the subprocess does: return code zero or not, or an
  exception (which \<open>TerraformInitTool\<close> lets through after the \<open>finally\<close> block).
\<close>

theorem terraform_tools_restore_cwd:
  "chdir f l cwd workspace_dir = Inr (cwd @ [n]) \<Longrightarrow>
     snd (TerraformInitTool_run f l run workspace_dir cwd) = cwd
   \<and> snd (TerraformPlanTool_run f l run workspace_dir vs cwd) = cwd
   \<and> snd (TerraformApplyTool_run f l run pretty workspace_dir auto_approve plan_file vs cwd) = cwd
   \<and> snd (TerraformOutputTool_run f l run pretty workspace_dir output_name cwd) = cwd
   \<and> snd (TerraformDestroyTool_run f l run workspace_dir auto_approve vs cwd) = cwd"
  by (simp add: TerraformInitTool_run_def TerraformPlanTool_run_def TerraformApplyTool_run_def
      TerraformOutputTool_run_def TerraformDestroyTool_run_def finally_up_child)

lemma components_dot_terraform: "components ''./terraform'' = [''terraform'']"
  by (simp add: components_def)

lemma chdir_project:
  "chdir project_fs no_links [''home'', ''ops''] ''./terraform''
     = Inr ([''home'', ''ops''] @ [''terraform''])"
  using chdir_child [of "''./terraform''" "''terraform''" no_links "[''home'', ''ops'']" project_fs]
  by (simp add: components_dot_terraform no_links_def project_fs_def)

theorem terraform_tools_restore_cwd_witness:
  "chdir project_fs no_links [''home'', ''ops''] ''./terraform''
     = Inr ([''home'', ''ops''] @ [''terraform''])
   \<and> TerraformInitTool_run project_fs no_links terraform_fails ''./terraform'' [''home'', ''ops'']
       = (Inr ''Error initializing Terraform: Error: No configuration files'', [''home'', ''ops''])
   \<and> TerraformInitTool_run project_fs no_links terraform_missing ''./terraform'' [''home'', ''ops'']
       = (Inl (FileNotFoundError ''No such file or directory: terraform''), [''home'', ''ops''])
   \<and> snd (TerraformDestroyTool_run project_fs no_links terraform_fails ''./terraform'' True None
             [''home'', ''ops'']) = [''home'', ''ops'']"
  using terraform_tools_restore_cwd [OF chdir_project, where run = terraform_fails
      and vs = None and auto_approve = True]
    terraform_tools_restore_cwd [OF chdir_project, where run = terraform_missing]
  by (simp add: chdir_project TerraformInitTool_run_def terraform_fails_def terraform_missing_def
      finally_chdir_up_def)

text \<open>
  C10 as stated fails: \<open>./terraform\<close> names an entry of the working directory \<open>/home/ops\<close>
  that can be entered, a symbolic link to \<open>/srv/tf/prod\<close>; every tool then ends in
  \<open>/srv/tf\<close>, the parent of the directory entered, and not in \<open>/home/ops\<close>.
\<close>

theorem symlinked_workspace_moves_cwd:
  "deployed_links [''home'', ''ops'', ''terraform''] = Some [''srv'', ''tf'', ''prod'']
   \<and> chdir deployed_fs deployed_links [''home'', ''ops''] ''./terraform''
       = Inr [''srv'', ''tf'', ''prod'']
   \<and> TerraformInitTool_run deployed_fs deployed_links terraform_fails ''./terraform''
         [''home'', ''ops'']
       = (Inr ''Error initializing Terraform: Error: No configuration files'', [''srv'', ''tf''])
   \<and> snd (TerraformPlanTool_run deployed_fs deployed_links terraform_fails ''./terraform'' None
             [''home'', ''ops'']) = [''srv'', ''tf'']
   \<and> snd (TerraformApplyTool_run deployed_fs deployed_links terraform_fails Some ''./terraform''
             True (Some ''tfplan'') None [''home'', ''ops'']) = [''srv'', ''tf'']
   \<and> snd (TerraformOutputTool_run deployed_fs deployed_links terraform_fails Some ''./terraform''
             None [''home'', ''ops'']) = [''srv'', ''tf'']
   \<and> snd (TerraformDestroyTool_run deployed_fs deployed_links terraform_fails ''./terraform''
             True None [''home'', ''ops'']) = [''srv'', ''tf'']"
  by (simp add: TerraformInitTool_run_def TerraformPlanTool_run_def TerraformApplyTool_run_def
      TerraformOutputTool_run_def TerraformDestroyTool_run_def chdir_def
      components_dot_terraform node_at_def deployed_fs_def deployed_links_def
      terraform_fails_def finally_chdir_up_def)

text \<open>
  Outside the hypothesis of the claim, a workspace that cannot be entered, or one that
  lies deeper than one level, leaves the process in another directory as well.
\<close>

lemma components_nope: "components ''./nope'' = [''nope'']"
  by (simp add: components_def)

lemma components_nested: "components ''k8s_setup/terraform'' = [''k8s_setup'', ''terraform'']"
  by (simp add: components_def)

lemma missing_workspace_moves_cwd:
  "snd (TerraformPlanTool_run project_fs no_links run ''./nope'' vs [''home'', ''ops''])
     = [''home'']"
  by (simp add: TerraformPlanTool_run_def chdir_def components_nope node_at_def project_fs_def
      no_links_def finally_chdir_up_def)

lemma nested_workspace_moves_cwd:
  "snd (TerraformPlanTool_run project_fs no_links run ''k8s_setup/terraform'' vs
          [''home'', ''ops''])
   = [''home'', ''ops'', ''k8s_setup'']"
  by (simp add: TerraformPlanTool_run_def chdir_def components_nested node_at_def project_fs_def
      no_links_def finally_chdir_up_def)


section \<open>Connections made by the SSH and SCP tools\<close>

text \<open>
  C3, as the code has it: each \<open>_run\<close> makes exactly one connection. An exception of the
  transport is returned at once as the string \<open>SSH error: ...\<close> or \<open>SCP error: ...\<close>, for
  SCP with the side written left as it was; a non-zero exit status is returned at once as
  \<open>Command failed with exit status ...\<close>. Nothing is retried.
\<close>

theorem tools_single_connection:
  "snd (SSHConnectionTool_run expanduser net host user key_path prt cmd tmo k) = Suc k
   \<and> (net k \<lparr>hostname = host, username = user, key_filename = expanduser key_path,
              port = prt, timeout = tmo\<rparr> cmd = Raises e \<longrightarrow>
        fst (SSHConnectionTool_run expanduser net host user key_path prt cmd tmo k)
          = ''SSH error: '' @ str_exc e)
   \<and> (net k \<lparr>hostname = host, username = user, key_filename = expanduser key_path,
              port = prt, timeout = tmo\<rparr> cmd = Completed st out err \<and> st \<noteq> 0 \<longrightarrow>
        fst (SSHConnectionTool_run expanduser net host user key_path prt cmd tmo k)
          = ''Command failed with exit status '' @ str_int st @ '':\<newline>'' @ err)
   \<and> snd (snd (SCPTransferTool_run expanduser snet host user key_path prt local_path remote_path
                  upload recursive tmo src x k)) = Suc k
   \<and> (snet k \<lparr>hostname = host, username = user, key_filename = expanduser key_path,
               port = prt, timeout = tmo\<rparr> = Some e' \<longrightarrow>
        SCPTransferTool_run expanduser snet host user key_path prt local_path remote_path
            upload recursive tmo src x k
          = (''SCP error: '' @ str_exc e', x, Suc k))"
  by (simp add: SSHConnectionTool_run_def SCPTransferTool_run_def Let_def
      split: ssh_outcome.split option.split sum.split prod.split)

theorem tools_single_connection_witness:
  "flaky_net 0 \<lparr>hostname = ''10.0.1.10'', username = ''ubuntu'', key_filename = id ''~/.ssh/id_rsa'',
              port = 22, timeout = 30\<rparr> ''kubectl get nodes'' = Raises (OtherException ''timed out'')
   \<and> fst (SSHConnectionTool_run id flaky_net ''10.0.1.10'' ''ubuntu'' ''~/.ssh/id_rsa'' 22
            ''kubectl get nodes'' 30 0) = ''SSH error: '' @ str_exc (OtherException ''timed out'')
   \<and> always (Completed 1 [] ''boom'') 0 \<lparr>hostname = ''10.0.1.10'', username = ''ubuntu'',
        key_filename = id ''~/.ssh/id_rsa'', port = 22, timeout = 30\<rparr> ''kubectl get nodes''
       = Completed 1 [] ''boom'' \<and> (1::int) \<noteq> 0
   \<and> fst (SSHConnectionTool_run id (always (Completed 1 [] ''boom'')) ''10.0.1.10'' ''ubuntu''
            ''~/.ssh/id_rsa'' 22 ''kubectl get nodes'' 30 0)
       = ''Command failed with exit status '' @ str_int 1 @ '':\<newline>'' @ ''boom''
   \<and> flaky_scp_net 0 \<lparr>hostname = ''10.0.1.10'', username = ''ubuntu'',
        key_filename = id ''~/.ssh/id_rsa'', port = 22, timeout = 30\<rparr>
       = Some (OtherException ''Connection refused'')
   \<and> SCPTransferTool_run id flaky_scp_net ''10.0.1.10'' ''ubuntu'' ''~/.ssh/id_rsa'' 22
        ''scripts'' ''/home/ubuntu/scripts'' True True 30 (Dir []) fresh 0
       = (''SCP error: '' @ str_exc (OtherException ''Connection refused''), fresh, Suc 0)"
proof -
  have a: "flaky_net 0 \<lparr>hostname = ''10.0.1.10'', username = ''ubuntu'', key_filename = id ''~/.ssh/id_rsa'',
              port = 22, timeout = 30\<rparr> ''kubectl get nodes'' = Raises (OtherException ''timed out'')"
    by (simp add: flaky_net_def)
  have b: "always (Completed 1 [] ''boom'') 0 \<lparr>hostname = ''10.0.1.10'', username = ''ubuntu'',
        key_filename = id ''~/.ssh/id_rsa'', port = 22, timeout = 30\<rparr> ''kubectl get nodes''
       = Completed 1 [] ''boom'' \<and> (1::int) \<noteq> 0"
    by (simp add: always_def)
  have c: "flaky_scp_net 0 \<lparr>hostname = ''10.0.1.10'', username = ''ubuntu'',
        key_filename = id ''~/.ssh/id_rsa'', port = 22, timeout = 30\<rparr>
       = Some (OtherException ''Connection refused'')"
    by (simp add: flaky_scp_net_def)
  from a b c
    tools_single_connection [of id flaky_net "''10.0.1.10''" "''ubuntu''" "''~/.ssh/id_rsa''" 22
      "''kubectl get nodes''" 30 0 "OtherException ''timed out''" 1 "[]" "''boom''"
      flaky_scp_net "''scripts''" "''/home/ubuntu/scripts''" True True "Dir []" fresh
      "OtherException ''Connection refused''"]
    tools_single_connection [of id "always (Completed 1 [] ''boom'')" "''10.0.1.10''" "''ubuntu''"
      "''~/.ssh/id_rsa''" 22
      "''kubectl get nodes''" 30 0 "OtherException ''timed out''" 1 "[]" "''boom''"
      flaky_scp_net "''scripts''" "''/home/ubuntu/scripts''" True True "Dir []" fresh
      "OtherException ''Connection refused''"]
  show ?thesis by blast
qed

text \<open>
  C3 as stated fails: on a network whose first connection times out and whose second one
  would succeed, \<open>_run\<close> returns the error after one connection; only another call, made
  by the caller, reaches the second one. The same holds for a refused SCP connection.
\<close>

theorem no_retry_after_transient_failure:
  "SSHConnectionTool_run id flaky_net ''10.0.1.10'' ''ubuntu'' ''~/.ssh/id_rsa'' 22
      ''kubectl get nodes'' 30 0 = (''SSH error: timed out'', 1)
   \<and> SSHConnectionTool_run id flaky_net ''10.0.1.10'' ''ubuntu'' ''~/.ssh/id_rsa'' 22
      ''kubectl get nodes'' 30 1 = (''Command executed successfully:\<newline>done'', 2)
   \<and> SCPTransferTool_run id flaky_scp_net ''10.0.1.10'' ''ubuntu'' ''~/.ssh/id_rsa'' 22
        ''scripts'' ''/home/ubuntu/scripts'' True True 30 (Dir []) fresh 0
       = (''SCP error: Connection refused'', fresh, 1)"
  by (simp add: SSHConnectionTool_run_def SCPTransferTool_run_def Let_def flaky_net_def
      flaky_scp_net_def)


section \<open>Properties of \<open>setup_kubernetes_cluster\<close> and \<open>destroy_cluster\<close>\<close>

lemma setup_raised:
  assumes "fst (create_terraform_files self config w) = Inl e
      \<or> (fst (create_terraform_files self config w) = Inr ()
          \<and> fst (agent_invoke self (setup_prompt (working_dir self) config)
                    (snd (create_terraform_files self config w))) = Inl e)"
  shows "fst (setup_kubernetes_cluster self config w)
     = (if is_Exception e
        then (case str_raised e of
                Inl r \<Rightarrow> Inl r
              | Inr s \<Rightarrow>
                  Inr [(''success'', JBool False),
                       (''message'', JStr (''Error setting up Kubernetes cluster: '' @ s)),
                       (''error'', JStr s)])
        else Inl e)"
proof -
  obtain r1 w1 where c: "create_terraform_files self config w = (r1, w1)"
    by (cases "create_terraform_files self config w")
  obtain r2 w2 where a: "agent_invoke self (setup_prompt (working_dir self) config) w1 = (r2, w2)"
    by (cases "agent_invoke self (setup_prompt (working_dir self) config) w1")
  from assms c a have "r1 = Inl e \<or> (r1 = Inr () \<and> r2 = Inl e)" by simp
  then show ?thesis
    by (auto simp add: setup_kubernetes_cluster_def try_except_def then_do_def return_value_def
        c a split: sum.split)
qed

lemma setup_returned:
  assumes "fst (create_terraform_files self config w) = Inr ()"
    and "fst (agent_invoke self (setup_prompt (working_dir self) config)
                (snd (create_terraform_files self config w))) = Inr result"
  shows "fst (setup_kubernetes_cluster self config w)
     = Inr [(''success'', JBool True),
            (''message'', JStr ''Kubernetes cluster setup completed successfully''),
            (''agent_output'', result)]"
proof -
  obtain r1 w1 where c: "create_terraform_files self config w = (r1, w1)"
    by (cases "create_terraform_files self config w")
  obtain r2 w2 where a: "agent_invoke self (setup_prompt (working_dir self) config) w1 = (r2, w2)"
    by (cases "agent_invoke self (setup_prompt (working_dir self) config) w1")
  from assms c a have "r1 = Inr ()" and "r2 = Inr result" by simp_all
  then show ?thesis
    by (simp add: setup_kubernetes_cluster_def try_except_def then_do_def return_value_def c a)
qed

lemma destroy_raised:
  assumes "fst (agent_invoke self destroy_prompt w) = Inl e"
  shows "fst (destroy_cluster self w)
     = (if is_Exception e
        then (case str_raised e of
                Inl r \<Rightarrow> Inl r
              | Inr s \<Rightarrow>
                  Inr [(''success'', JBool False),
                       (''message'', JStr (''Error destroying Kubernetes cluster: '' @ s)),
                       (''error'', JStr s)])
        else Inl e)"
proof -
  obtain r2 w2 where a: "agent_invoke self destroy_prompt w = (r2, w2)"
    by (cases "agent_invoke self destroy_prompt w")
  with assms have "r2 = Inl e" by simp
  then show ?thesis
    by (simp add: destroy_cluster_def try_except_def then_do_def return_value_def a
        split: sum.split)
qed

lemma destroy_success:
  assumes "fst (agent_invoke self destroy_prompt w) = Inr result"
  shows "fst (destroy_cluster self w)
     = Inr [(''success'', JBool True),
            (''message'', JStr ''Kubernetes cluster destroyed successfully''),
            (''agent_output'', result)]"
proof -
  obtain r2 w2 where a: "agent_invoke self destroy_prompt w = (r2, w2)"
    by (cases "agent_invoke self destroy_prompt w")
  with assms have "r2 = Inr result" by simp
  then show ?thesis
    by (simp add: destroy_cluster_def try_except_def then_do_def return_value_def a)
qed

text \<open>
  C8, as the code has it. Let \<open>e\<close> be what \<open>create_terraform_files\<close> or \<open>agent.invoke\<close>
  raises. When \<open>e\<close> is an instance of \<open>Exception\<close> and \<open>str(e)\<close> returns \<open>s\<close>, both entry
  points return the dictionary with \<open>success\<close> false, the message that ends with \<open>s\<close>, and
  \<open>s\<close> under \<open>error\<close>. When \<open>e\<close> is not an instance of \<open>Exception\<close>, it leaves the entry
  point, and so does what \<open>str(e)\<close> raises in the handler. When nothing is raised, both
  return the dictionary with \<open>success\<close> true and the agent's output.
\<close>

theorem entry_points_catch_Exception_only:
  "((fst (create_terraform_files self config w) = Inl e
       \<or> (fst (create_terraform_files self config w) = Inr ()
           \<and> fst (agent_invoke self (setup_prompt (working_dir self) config)
                     (snd (create_terraform_files self config w))) = Inl e)) \<longrightarrow>
      (is_Exception e \<and> str_raised e = Inr s \<longrightarrow>
         fst (setup_kubernetes_cluster self config w)
           = Inr [(''success'', JBool False),
                  (''message'', JStr (''Error setting up Kubernetes cluster: '' @ s)),
                  (''error'', JStr s)])
      \<and> (is_Exception e \<and> str_raised e = Inl r \<longrightarrow>
           fst (setup_kubernetes_cluster self config w) = Inl r)
      \<and> (\<not> is_Exception e \<longrightarrow> fst (setup_kubernetes_cluster self config w) = Inl e))
   \<and> (fst (create_terraform_files self config w) = Inr ()
       \<and> fst (agent_invoke self (setup_prompt (working_dir self) config)
                 (snd (create_terraform_files self config w))) = Inr answer \<longrightarrow>
        fst (setup_kubernetes_cluster self config w)
          = Inr [(''success'', JBool True),
                 (''message'', JStr ''Kubernetes cluster setup completed successfully''),
                 (''agent_output'', answer)])
   \<and> (fst (agent_invoke self destroy_prompt w') = Inl e' \<longrightarrow>
        (is_Exception e' \<and> str_raised e' = Inr s' \<longrightarrow>
           fst (destroy_cluster self w')
             = Inr [(''success'', JBool False),
                    (''message'', JStr (''Error destroying Kubernetes cluster: '' @ s')),
                    (''error'', JStr s')])
        \<and> (is_Exception e' \<and> str_raised e' = Inl r' \<longrightarrow> fst (destroy_cluster self w') = Inl r')
        \<and> (\<not> is_Exception e' \<longrightarrow> fst (destroy_cluster self w') = Inl e'))
   \<and> (fst (agent_invoke self destroy_prompt w') = Inr result \<longrightarrow>
        fst (destroy_cluster self w')
          = Inr [(''success'', JBool True),
                 (''message'', JStr ''Kubernetes cluster destroyed successfully''),
                 (''agent_output'', result)])"
proof (intro conjI impI)
  assume h: "fst (create_terraform_files self config w) = Inl e
       \<or> (fst (create_terraform_files self config w) = Inr ()
           \<and> fst (agent_invoke self (setup_prompt (working_dir self) config)
                     (snd (create_terraform_files self config w))) = Inl e)"
  {
    assume "is_Exception e \<and> str_raised e = Inr s"
    with setup_raised [OF h]
    show "fst (setup_kubernetes_cluster self config w)
           = Inr [(''success'', JBool False),
                  (''message'', JStr (''Error setting up Kubernetes cluster: '' @ s)),
                  (''error'', JStr s)]" by simp
  next
    assume "is_Exception e \<and> str_raised e = Inl r"
    with setup_raised [OF h]
    show "fst (setup_kubernetes_cluster self config w) = Inl r" by simp
  next
    assume "\<not> is_Exception e"
    with setup_raised [OF h]
    show "fst (setup_kubernetes_cluster self config w) = Inl e" by simp
  }
next
  assume "fst (create_terraform_files self config w) = Inr ()
       \<and> fst (agent_invoke self (setup_prompt (working_dir self) config)
                 (snd (create_terraform_files self config w))) = Inr answer"
  then show "fst (setup_kubernetes_cluster self config w)
          = Inr [(''success'', JBool True),
                 (''message'', JStr ''Kubernetes cluster setup completed successfully''),
                 (''agent_output'', answer)]"
    using setup_returned [of self config w answer] by blast
next
  assume h: "fst (agent_invoke self destroy_prompt w') = Inl e'"
  {
    assume "is_Exception e' \<and> str_raised e' = Inr s'"
    with destroy_raised [OF h]
    show "fst (destroy_cluster self w')
             = Inr [(''success'', JBool False),
                    (''message'', JStr (''Error destroying Kubernetes cluster: '' @ s')),
                    (''error'', JStr s')]" by simp
  next
    assume "is_Exception e' \<and> str_raised e' = Inl r'"
    with destroy_raised [OF h]
    show "fst (destroy_cluster self w') = Inl r'" by simp
  next
    assume "\<not> is_Exception e'"
    with destroy_raised [OF h]
    show "fst (destroy_cluster self w') = Inl e'" by simp
  }
next
  assume "fst (agent_invoke self destroy_prompt w') = Inr result"
  from destroy_success [OF this]
  show "fst (destroy_cluster self w')
          = Inr [(''success'', JBool True),
                 (''message'', JStr ''Kubernetes cluster destroyed successfully''),
                 (''agent_output'', result)]" .
qed

theorem entry_points_catch_Exception_only_witness:
  "fst (create_terraform_files failing_manager (default_config 2) []) = Inr ()
   \<and> fst (agent_invoke failing_manager
             (setup_prompt (working_dir failing_manager) (default_config 2))
             (snd (create_terraform_files failing_manager (default_config 2) [])))
       = Inl (Exc (OtherException ''Rate limit reached''))
   \<and> fst (agent_invoke failing_manager destroy_prompt [])
       = Inl (Exc (OtherException ''Rate limit reached''))
   \<and> is_Exception (Exc (OtherException ''Rate limit reached''))
   \<and> str_raised (Exc (OtherException ''Rate limit reached'')) = Inr ''Rate limit reached''
   \<and> fst (setup_kubernetes_cluster failing_manager (default_config 2) [])
       = Inr [(''success'', JBool False),
              (''message'', JStr (''Error setting up Kubernetes cluster: '' @ ''Rate limit reached'')),
              (''error'', JStr ''Rate limit reached'')]
   \<and> fst (destroy_cluster failing_manager [])
       = Inr [(''success'', JBool False),
              (''message'', JStr (''Error destroying Kubernetes cluster: '' @ ''Rate limit reached'')),
              (''error'', JStr ''Rate limit reached'')]
   \<and> fst (agent_invoke eager_manager destroy_prompt []) = Inr (JStr ''3 nodes Ready'')
   \<and> fst (destroy_cluster eager_manager [])
       = Inr [(''success'', JBool True),
              (''message'', JStr ''Kubernetes cluster destroyed successfully''),
              (''agent_output'', JStr ''3 nodes Ready'')]
   \<and> fst (create_terraform_files eager_manager (default_config 2) []) = Inr ()
   \<and> fst (agent_invoke eager_manager
             (setup_prompt (working_dir eager_manager) (default_config 2))
             (snd (create_terraform_files eager_manager (default_config 2) [])))
       = Inr (JStr ''3 nodes Ready'')
   \<and> fst (setup_kubernetes_cluster eager_manager (default_config 2) [])
       = Inr [(''success'', JBool True),
              (''message'', JStr ''Kubernetes cluster setup completed successfully''),
              (''agent_output'', JStr ''3 nodes Ready'')]
   \<and> fst (agent_invoke interrupted_manager destroy_prompt []) = Inl KeyboardInterrupt
   \<and> \<not> is_Exception KeyboardInterrupt
   \<and> fst (destroy_cluster interrupted_manager []) = Inl KeyboardInterrupt
   \<and> fst (agent_invoke garbled_manager destroy_prompt [])
       = Inl (Unprintable (Exc (TypeError ''__str__ returned non-string'')))
   \<and> is_Exception (Unprintable (Exc (TypeError ''__str__ returned non-string'')))
   \<and> str_raised (Unprintable (Exc (TypeError ''__str__ returned non-string'')))
       = Inl (Exc (TypeError ''__str__ returned non-string''))
   \<and> fst (destroy_cluster garbled_manager [])
       = Inl (Exc (TypeError ''__str__ returned non-string''))"
proof -
  have a: "fst (create_terraform_files failing_manager (default_config 2) []) = Inr ()
   \<and> fst (agent_invoke failing_manager
             (setup_prompt (working_dir failing_manager) (default_config 2))
             (snd (create_terraform_files failing_manager (default_config 2) [])))
       = Inl (Exc (OtherException ''Rate limit reached''))"
    by (simp add: failing_manager_def failing_agent_def no_files_def)
  have b: "fst (agent_invoke failing_manager destroy_prompt [])
       = Inl (Exc (OtherException ''Rate limit reached''))"
    by (simp add: failing_manager_def failing_agent_def)
  have c: "is_Exception (Exc (OtherException ''Rate limit reached''))
   \<and> str_raised (Exc (OtherException ''Rate limit reached'')) = Inr ''Rate limit reached''"
    by simp
  have d: "fst (agent_invoke eager_manager destroy_prompt []) = Inr (JStr ''3 nodes Ready'')"
    by (simp add: eager_manager_def eager_agent_def)
  from a b c
    entry_points_catch_Exception_only
      [where self = failing_manager and config = "default_config 2" and w = "[]"
         and e = "Exc (OtherException ''Rate limit reached'')" and s = "''Rate limit reached''"
         and w' = "[]" and e' = "Exc (OtherException ''Rate limit reached'')"
         and s' = "''Rate limit reached''"]
  have e: "fst (setup_kubernetes_cluster failing_manager (default_config 2) [])
       = Inr [(''success'', JBool False),
              (''message'', JStr (''Error setting up Kubernetes cluster: '' @ ''Rate limit reached'')),
              (''error'', JStr ''Rate limit reached'')]
   \<and> fst (destroy_cluster failing_manager [])
       = Inr [(''success'', JBool False),
              (''message'', JStr (''Error destroying Kubernetes cluster: '' @ ''Rate limit reached'')),
              (''error'', JStr ''Rate limit reached'')]"
    by blast
  from d
    entry_points_catch_Exception_only
      [where self = eager_manager and w' = "[]" and result = "JStr ''3 nodes Ready''"]
  have f: "fst (destroy_cluster eager_manager [])
       = Inr [(''success'', JBool True),
              (''message'', JStr ''Kubernetes cluster destroyed successfully''),
              (''agent_output'', JStr ''3 nodes Ready'')]"
    by blast
  have g: "fst (agent_invoke interrupted_manager destroy_prompt []) = Inl KeyboardInterrupt
   \<and> \<not> is_Exception KeyboardInterrupt"
    by (simp add: interrupted_manager_def interrupted_agent_def)
  from g
    entry_points_catch_Exception_only
      [where self = interrupted_manager and w' = "[]" and e' = KeyboardInterrupt]
  have h: "fst (destroy_cluster interrupted_manager []) = Inl KeyboardInterrupt"
    by blast
  have i: "fst (agent_invoke garbled_manager destroy_prompt [])
       = Inl (Unprintable (Exc (TypeError ''__str__ returned non-string'')))
   \<and> is_Exception (Unprintable (Exc (TypeError ''__str__ returned non-string'')))
   \<and> str_raised (Unprintable (Exc (TypeError ''__str__ returned non-string'')))
       = Inl (Exc (TypeError ''__str__ returned non-string''))"
    by (simp add: garbled_manager_def garbled_agent_def)
  from i
    entry_points_catch_Exception_only
      [where self = garbled_manager and w' = "[]"
         and e' = "Unprintable (Exc (TypeError ''__str__ returned non-string''))"
         and r' = "Exc (TypeError ''__str__ returned non-string'')"]
  have j: "fst (destroy_cluster garbled_manager [])
       = Inl (Exc (TypeError ''__str__ returned non-string''))"
    by blast
  have k: "fst (create_terraform_files eager_manager (default_config 2) []) = Inr ()
   \<and> fst (agent_invoke eager_manager
             (setup_prompt (working_dir eager_manager) (default_config 2))
             (snd (create_terraform_files eager_manager (default_config 2) [])))
       = Inr (JStr ''3 nodes Ready'')"
    by (simp add: eager_manager_def eager_agent_def no_files_def)
  from k
    entry_points_catch_Exception_only
      [where self = eager_manager and config = "default_config 2" and w = "[]"
         and answer = "JStr ''3 nodes Ready''"]
  have l: "fst (setup_kubernetes_cluster eager_manager (default_config 2) [])
       = Inr [(''success'', JBool True),
              (''message'', JStr ''Kubernetes cluster setup completed successfully''),
              (''agent_output'', JStr ''3 nodes Ready'')]"
    by blast
  from a b c d e f g h i j k l show ?thesis by blast
qed

text \<open>
  C8 as stated fails: an interruption from the keyboard while the agent runs is not an
  \<open>Exception\<close>; neither entry point returns a dictionary, the exception reaches the
  caller.
\<close>

theorem keyboard_interrupt_leaves_entry_points:
  "setup_kubernetes_cluster interrupted_manager (default_config 2) [] = (Inl KeyboardInterrupt, [])
   \<and> destroy_cluster interrupted_manager [] = (Inl KeyboardInterrupt, [])"
  by (simp add: setup_kubernetes_cluster_def destroy_cluster_def try_except_def then_do_def
      return_value_def interrupted_manager_def interrupted_agent_def no_files_def)

lemma setup_success:
  "create_terraform_files self config w = (Inr (), w1) \<Longrightarrow>
   agent_invoke self (setup_prompt (working_dir self) config) w1 = (Inr result, w2) \<Longrightarrow>
   setup_kubernetes_cluster self config w =
     (Inr [(''success'', JBool True),
           (''message'', JStr ''Kubernetes cluster setup completed successfully''),
           (''agent_output'', result)], w2)"
  by (simp add: setup_kubernetes_cluster_def try_except_def then_do_def return_value_def)

lemma setup_prompt_steps:
  \<open>setup_prompt wd config =
     (''\<newline>                I want to set up a Kubernetes cluster with ''
        @ py_str (config_get config ''master_count'' (JInt 1))
        @ '' master nodes \<newline>                and ''
        @ py_str (config_get config ''worker_count'' (JInt 2))
        @ '' worker nodes in AWS region ''
        @ py_str (config_get config ''aws_region'' (JStr ''us-east-1''))
        @ ''.\<newline>                \<newline>                I have already created the Terraform files in ''
        @ wd
        @ ''/terraform.\<newline>                \<newline>                Please perform the following steps:\<newline>                1. Initialize Terraform\<newline>                2. Create an execution plan\<newline>                3. Apply the Terraform configuration to create the infrastructure\<newline>                4. Generate the necessary scripts for setting up the Kubernetes cluster\<newline>                '')
     @ ''5. Configure the master node(s)'' @ ''\<newline>                ''
     @ ''6. Configure the worker nodes'' @ (''\<newline>                7. Verify the cluster is properly set up\<newline>                \<newline>                I'll be using the SSH key at ''
        @ py_str (config_get config ''ssh_private_key_path'' (JStr ''~/.ssh/id_rsa''))
        @ '' for accessing the instances.\<newline>                '')\<close>
  by (simp add: setup_prompt_def)

text \<open>
  C1, as the code has it: the order of the operations is left to the agent. The function
  sends one prompt, in which the configuration of the master is step 5 and that of the
  workers step 6, and whenever the agent returns it reports success with the world the
  agent left, so with any tool calls in any order.
\<close>

theorem setup_reports_success_for_any_calls:
  \<open>(create_terraform_files self config w = (Inr (), w1) \<and>
    agent_invoke self (setup_prompt (working_dir self) config) w1 = (Inr result, w2) \<longrightarrow>
    setup_kubernetes_cluster self config w =
      (Inr [(''success'', JBool True),
            (''message'', JStr ''Kubernetes cluster setup completed successfully''),
            (''agent_output'', result)], w2))
   \<and> (\<exists>a b c. setup_prompt wd config =
         a @ ''5. Configure the master node(s)'' @ b @ ''6. Configure the worker nodes'' @ c)\<close>
proof (intro conjI impI)
  assume "create_terraform_files self config w = (Inr (), w1) \<and>
    agent_invoke self (setup_prompt (working_dir self) config) w1 = (Inr result, w2)"
  then show "setup_kubernetes_cluster self config w =
      (Inr [(''success'', JBool True),
            (''message'', JStr ''Kubernetes cluster setup completed successfully''),
            (''agent_output'', result)], w2)"
    using setup_success [of self config w w1 result w2] by blast
next
  show "\<exists>a b c. setup_prompt wd config =
         a @ ''5. Configure the master node(s)'' @ b @ ''6. Configure the worker nodes'' @ c"
    by (subst setup_prompt_steps) blast
qed

theorem setup_reports_success_for_any_calls_witness:
  "create_terraform_files hasty_manager (default_config 2) [] = (Inr (), [])
   \<and> agent_invoke hasty_manager (setup_prompt (working_dir hasty_manager) (default_config 2)) []
       = (Inr (JStr ''worker configured''),
          [GenerateScript ''k8s_worker'' ''./k8s_setup/scripts/worker.sh'' (Some []),
           ScpTransfer ''10.0.2.11'' ''./k8s_setup/scripts/worker.sh'' ''/tmp/worker.sh''
             True False,
           SshExecute ''10.0.2.11'' ''sudo bash /tmp/worker.sh''])
   \<and> fst (setup_kubernetes_cluster hasty_manager (default_config 2) []) =
       Inr [(''success'', JBool True),
            (''message'', JStr ''Kubernetes cluster setup completed successfully''),
            (''agent_output'', JStr ''worker configured'')]"
proof -
  have h: "create_terraform_files hasty_manager (default_config 2) [] = (Inr (), [])
   \<and> agent_invoke hasty_manager (setup_prompt (working_dir hasty_manager) (default_config 2)) []
       = (Inr (JStr ''worker configured''),
          [GenerateScript ''k8s_worker'' ''./k8s_setup/scripts/worker.sh'' (Some []),
           ScpTransfer ''10.0.2.11'' ''./k8s_setup/scripts/worker.sh'' ''/tmp/worker.sh''
             True False,
           SshExecute ''10.0.2.11'' ''sudo bash /tmp/worker.sh''])"
    by (simp add: hasty_manager_def hasty_agent_def no_files_def)
  from setup_reports_success_for_any_calls
    [where self = hasty_manager and config = "default_config 2" and w = "[]" and ?w1.0 = "[]"
       and result = "JStr ''worker configured''"
       and ?w2.0 = "[GenerateScript ''k8s_worker'' ''./k8s_setup/scripts/worker.sh'' (Some []),
           ScpTransfer ''10.0.2.11'' ''./k8s_setup/scripts/worker.sh'' ''/tmp/worker.sh''
             True False,
           SshExecute ''10.0.2.11'' ''sudo bash /tmp/worker.sh'']"]
    h
  show ?thesis by simp
qed

text \<open>
  C1 as stated fails: with an agent that generates, transfers and runs the worker script
  and makes no call for the control plane, the function returns success, and the log has
  a worker-join call with no master-script call before it.
\<close>

theorem worker_join_without_master:
  "setup_kubernetes_cluster hasty_manager (default_config 2) [] =
     (Inr [(''success'', JBool True),
           (''message'', JStr ''Kubernetes cluster setup completed successfully''),
           (''agent_output'', JStr ''worker configured'')],
      [GenerateScript ''k8s_worker'' ''./k8s_setup/scripts/worker.sh'' (Some []),
       ScpTransfer ''10.0.2.11'' ''./k8s_setup/scripts/worker.sh'' ''/tmp/worker.sh'' True False,
       SshExecute ''10.0.2.11'' ''sudo bash /tmp/worker.sh''])
   \<and> \<not> joins_follow_master False
         (snd (setup_kubernetes_cluster hasty_manager (default_config 2) []))"
  by (simp add: setup_kubernetes_cluster_def try_except_def then_do_def
      return_value_def hasty_manager_def hasty_agent_def no_files_def)

lemma setup_world:
  assumes "fst (create_terraform_files self config w1) = Inr ()"
  shows "snd (setup_kubernetes_cluster self config w1)
     = snd (agent_invoke self (setup_prompt (working_dir self) config)
              (snd (create_terraform_files self config w1)))"
proof -
  obtain r w2 where c: "create_terraform_files self config w1 = (r, w2)"
    by (cases "create_terraform_files self config w1")
  with assms have r: "r = Inr ()" by simp
  obtain r' w3 where a: "agent_invoke self (setup_prompt (working_dir self) config) w2 = (r', w3)"
    by (cases "agent_invoke self (setup_prompt (working_dir self) config) w2")
  show ?thesis
    by (cases r') (simp_all add: setup_kubernetes_cluster_def try_except_def then_do_def
        return_value_def c r a)
qed

text \<open>
  C2, as the code has it: the function keeps no record of an earlier run. In a second
  invocation, from the world \<open>w1\<close> that the first one left, the Terraform files are
  written again and the agent is invoked again with the same prompt; the world after it
  is the one the agent leaves, so the remote calls made are those the agent chooses to
  make.
\<close>

theorem setup_runs_agent_again:
  "w1 = snd (setup_kubernetes_cluster self config w) \<and>
   fst (create_terraform_files self config w1) = Inr () \<longrightarrow>
   snd (setup_kubernetes_cluster self config w1)
     = snd (agent_invoke self (setup_prompt (working_dir self) config)
              (snd (create_terraform_files self config w1)))"
  using setup_world [of self config w1] by blast

theorem setup_runs_agent_again_witness:
  "[SshExecute ''10.0.1.10'' ''kubectl get nodes'']
     = snd (setup_kubernetes_cluster eager_manager (default_config 2) [])
   \<and> fst (create_terraform_files eager_manager (default_config 2)
             [SshExecute ''10.0.1.10'' ''kubectl get nodes'']) = Inr ()
   \<and> snd (setup_kubernetes_cluster eager_manager (default_config 2)
             [SshExecute ''10.0.1.10'' ''kubectl get nodes''])
       = [SshExecute ''10.0.1.10'' ''kubectl get nodes'',
          SshExecute ''10.0.1.10'' ''kubectl get nodes'']"
proof -
  have h: "[SshExecute ''10.0.1.10'' ''kubectl get nodes'']
     = snd (setup_kubernetes_cluster eager_manager (default_config 2) [])
   \<and> fst (create_terraform_files eager_manager (default_config 2)
             [SshExecute ''10.0.1.10'' ''kubectl get nodes'']) = Inr ()"
    by (simp add: setup_kubernetes_cluster_def try_except_def then_do_def
      return_value_def eager_manager_def eager_agent_def no_files_def)
  from setup_runs_agent_again
    [where self = eager_manager and config = "default_config 2" and w = "[]"
       and ?w1.0 = "[SshExecute ''10.0.1.10'' ''kubectl get nodes'']"]
    h
  show ?thesis by (simp add: eager_manager_def eager_agent_def no_files_def)
qed

text \<open>
  C2 as stated fails: with an agent that checks the nodes over SSH at every invocation,
  the first invocation reports success after one remote call, and the second invocation
  with the same configuration makes one more.
\<close>

theorem second_setup_repeats_remote_calls:
  "setup_kubernetes_cluster eager_manager (default_config 2) [] =
     (Inr [(''success'', JBool True),
           (''message'', JStr ''Kubernetes cluster setup completed successfully''),
           (''agent_output'', JStr ''3 nodes Ready'')],
      [SshExecute ''10.0.1.10'' ''kubectl get nodes''])
   \<and> setup_kubernetes_cluster eager_manager (default_config 2)
        [SshExecute ''10.0.1.10'' ''kubectl get nodes''] =
     (Inr [(''success'', JBool True),
           (''message'', JStr ''Kubernetes cluster setup completed successfully''),
           (''agent_output'', JStr ''3 nodes Ready'')],
      [SshExecute ''10.0.1.10'' ''kubectl get nodes'',
       SshExecute ''10.0.1.10'' ''kubectl get nodes''])
   \<and> remote_calls [SshExecute ''10.0.1.10'' ''kubectl get nodes''] = 1
   \<and> remote_calls [SshExecute ''10.0.1.10'' ''kubectl get nodes'',
                    SshExecute ''10.0.1.10'' ''kubectl get nodes''] = 2"
  by (simp add: setup_kubernetes_cluster_def try_except_def then_do_def
      return_value_def eager_manager_def eager_agent_def no_files_def remote_calls_def)


section \<open>Recursive transfers\<close>

subsection \<open>Single requests, and the entries of one directory\<close>

lemma relpath_append [simp]: "relpath (lp @ q) lp = q"
  by (simp add: relpath_def)


lemma node_at_upd_same: "p \<noteq> [] \<Longrightarrow> node_at (f(p \<mapsto> n)) p = Some n"
  by (simp add: node_at_def)










lemma set_dir_names: "set (dir_names es) \<subseteq> fst ` set es"
  by (induction es rule: dir_names.induct) auto




subsection \<open>What an upload leaves unchanged\<close>






subsection \<open>An upload that ends has put every file in place\<close>








subsection \<open>Requests that succeed\<close>
















subsection \<open>An upload into a destination with room succeeds\<close>


subsection \<open>The upload of a directory, and the order of its requests\<close>









subsection \<open>The local side of a download\<close>





subsection \<open>What a download leaves unchanged\<close>









subsection \<open>A download that ends has put every file in place\<close>







subsection \<open>A download into a destination with room succeeds\<close>



lemma all_dirs_kept:
  "(\<forall>q. f q = Some NDir \<longrightarrow> f' q = Some NDir) \<Longrightarrow> all_dirs_from f base ns
     \<Longrightarrow> all_dirs_from f' base ns"
  by (induction ns arbitrary: base) (auto simp add: node_at_def)






lemma not_prefix_self: "\<not> strict_prefix (a @ [n]) (a @ [n])"
  by simp







subsection \<open>The download of a directory, and the order of its requests\<close>





subsection \<open>Recursive upload and download through \<open>SCPTransferTool._run\<close>\<close>









end
